theory Spec2Isabelle
  imports Complex_Main
begin

section \<open>Conventions of the embedding\<close>

text \<open>
  The engine is TypeScript. A \<^verbatim>\<open>number\<close> that the program reads (a price, a volume, a limit,
  a quantity) is a finite double and is modelled as the \<^typ>\<open>real\<close> it denotes. The type
  \<open>jsnum\<close> keeps the two infinities and NaN apart from the finite values.
  The arithmetic of the channel index, of the staking evaluator and of the risk manager's
  metrics and validation is that of IEEE 754 doubles: every operation is the exact
  operation followed by rounding to the nearest double, and a decimal literal of the
  source is the double nearest to it (section "IEEE doubles"). The momentum and DCA
  evaluators, the position ledgers, the conditional value at risk and the scoring of a
  backtest are in exact arithmetic; there a quotient whose denominator can be zero at
  inputs a theorem below ranges over is a quotient of \<open>jsnum\<close>, elsewhere the quotient is
  the one of the reals, and the theorems about those functions are at inputs where the
  denominators are not zero.
  \<^verbatim>\<open>Date.now()\<close> is the explicit argument \<open>now\<close> (milliseconds).
  A JavaScript \<^verbatim>\<open>Map\<close> is an association list in insertion order, since the evaluators
  iterate over their maps. The free-text \<^verbatim>\<open>reason\<close> of a signal is left out of the records,
  and its \<^verbatim>\<open>quantity\<close>, optional in the interface and present in every signal the
  evaluators build, is a plain field.
\<close>

datatype jsnum = Num real | PInf | NInf | NaN

text \<open>
  The arithmetic of JavaScript on these values (the sign of zero apart: every zero is
  taken as \<open>+0\<close>). NaN is absorbing, and every comparison with NaN is false.
\<close>

fun jneg :: "jsnum \<Rightarrow> jsnum" where
  "jneg (Num a) = Num (- a)"
| "jneg PInf = NInf"
| "jneg NInf = PInf"
| "jneg NaN = NaN"

fun jadd :: "jsnum \<Rightarrow> jsnum \<Rightarrow> jsnum" where
  "jadd (Num a) (Num b) = Num (a + b)"
| "jadd NaN y = NaN"
| "jadd x NaN = NaN"
| "jadd PInf NInf = NaN"
| "jadd NInf PInf = NaN"
| "jadd PInf y = PInf"
| "jadd NInf y = NInf"
| "jadd x PInf = PInf"
| "jadd x NInf = NInf"

definition jsub :: "jsnum \<Rightarrow> jsnum \<Rightarrow> jsnum" where
  "jsub x y = jadd x (jneg y)"

text \<open>An infinity of the sign of \<open>a\<close> times the sign of \<open>b\<close>; NaN when either is zero.\<close>

definition signed_inf :: "real \<Rightarrow> real \<Rightarrow> jsnum" where
  "signed_inf a b =
     (if a = 0 \<or> b = 0 then NaN else if (0 < a) = (0 < b) then PInf else NInf)"

fun jmul :: "jsnum \<Rightarrow> jsnum \<Rightarrow> jsnum" where
  "jmul (Num a) (Num b) = Num (a * b)"
| "jmul NaN y = NaN"
| "jmul x NaN = NaN"
| "jmul PInf (Num b) = signed_inf 1 b"
| "jmul NInf (Num b) = signed_inf (- 1) b"
| "jmul (Num a) PInf = signed_inf a 1"
| "jmul (Num a) NInf = signed_inf a (- 1)"
| "jmul PInf PInf = PInf"
| "jmul NInf NInf = PInf"
| "jmul PInf NInf = NInf"
| "jmul NInf PInf = NInf"

text \<open>Quotient of two finite numbers: \<^verbatim>\<open>x / 0\<close> is an infinity of the sign of \<open>x\<close>, \<^verbatim>\<open>0 / 0\<close> is NaN.\<close>

definition jdiv :: "real \<Rightarrow> real \<Rightarrow> jsnum" where
  "jdiv a b =
     (if b \<noteq> 0 then Num (a / b)
      else if 0 < a then PInf
      else if a < 0 then NInf
      else NaN)"

fun jdivide :: "jsnum \<Rightarrow> jsnum \<Rightarrow> jsnum" where
  "jdivide (Num a) (Num b) = jdiv a b"
| "jdivide NaN y = NaN"
| "jdivide x NaN = NaN"
| "jdivide (Num a) PInf = Num 0"
| "jdivide (Num a) NInf = Num 0"
| "jdivide PInf (Num b) = (if b < 0 then NInf else PInf)"
| "jdivide NInf (Num b) = (if b < 0 then PInf else NInf)"
| "jdivide PInf PInf = NaN"
| "jdivide PInf NInf = NaN"
| "jdivide NInf PInf = NaN"
| "jdivide NInf NInf = NaN"

fun jsqrt :: "jsnum \<Rightarrow> jsnum" where
  "jsqrt (Num a) = (if a < 0 then NaN else Num (sqrt a))"
| "jsqrt PInf = PInf"
| "jsqrt NInf = NaN"
| "jsqrt NaN = NaN"

text \<open>\<^verbatim>\<open>xs.reduce((a, b) => a + b, 0)\<close>\<close>

definition jsum :: "jsnum list \<Rightarrow> jsnum" where
  "jsum xs = foldl jadd (Num 0) xs"

text \<open>\<^verbatim>\<open>x > c\<close> and \<^verbatim>\<open>x < c\<close> for a finite \<open>c\<close>.\<close>

fun jgt :: "jsnum \<Rightarrow> real \<Rightarrow> bool" where
  "jgt (Num a) c = (c < a)"
| "jgt PInf c = True"
| "jgt NInf c = False"
| "jgt NaN c = False"

fun jlt :: "jsnum \<Rightarrow> real \<Rightarrow> bool" where
  "jlt (Num a) c = (a < c)"
| "jlt PInf c = False"
| "jlt NInf c = True"
| "jlt NaN c = False"

fun is_finite :: "jsnum \<Rightarrow> bool" where
  "is_finite (Num a) = True"
| "is_finite PInf = False"
| "is_finite NInf = False"
| "is_finite NaN = False"

section \<open>IEEE doubles\<close>

text \<open>
  Where rounding decides what a function returns, its arithmetic is that of IEEE 754
  binary64 with rounding to nearest, ties to even: each operation is the exact operation
  followed by \<open>fl\<close>. A finite double is the real it denotes. \<open>expo n a\<close> is the binary
  exponent of a positive \<open>a\<close>, found in at most \<open>n\<close> steps; the unit in the last place is
  \<open>2\<close> to the exponent minus 52, and never below \<open>2\<close> to the -1074 (the subnormal range);
  a rounded value of exponent 1024 or more overflows to an infinity.
\<close>

fun expo :: "nat \<Rightarrow> real \<Rightarrow> int" where
  "expo 0 a = 0"
| "expo (Suc n) a =
     (if 2 \<le> a then expo n (a / 2) + 1
      else if a < 1 then expo n (2 * a) - 1
      else 0)"

definition pow2 :: "int \<Rightarrow> real" where
  "pow2 e = (if 0 \<le> e then 2 ^ nat e else 1 / 2 ^ nat (- e))"

definition round_even :: "real \<Rightarrow> real" where
  "round_even m =
     (let f = \<lfloor>m\<rfloor>
      in if m - of_int f < 1 / 2 then of_int f
         else if 1 / 2 < m - of_int f then of_int f + 1
         else if even f then of_int f
         else of_int f + 1)"

text \<open>The multiple of the unit in the last place that is nearest to \<open>x\<close>.\<close>

definition rnd :: "real \<Rightarrow> real" where
  "rnd x =
     (if x = 0 then 0
      else (let u = pow2 (max (expo 1100 \<bar>x\<bar>) (- 1022) - 52)
            in round_even (x / u) * u))"

definition fl :: "jsnum \<Rightarrow> jsnum" where
  "fl x =
     (case x of
        Num a \<Rightarrow>
          (let r = rnd a
           in if r = 0 then Num 0
              else if 1024 \<le> expo 1100 \<bar>r\<bar> then (if 0 < r then PInf else NInf)
              else Num r)
      | PInf \<Rightarrow> PInf
      | NInf \<Rightarrow> NInf
      | NaN \<Rightarrow> NaN)"

text \<open>A decimal literal of the source denotes the double nearest to it.\<close>

definition lit :: "real \<Rightarrow> jsnum" where
  "lit x = fl (Num x)"

definition dadd :: "jsnum \<Rightarrow> jsnum \<Rightarrow> jsnum" where
  "dadd x y = fl (jadd x y)"

definition dsub :: "jsnum \<Rightarrow> jsnum \<Rightarrow> jsnum" where
  "dsub x y = fl (jsub x y)"

definition dmul :: "jsnum \<Rightarrow> jsnum \<Rightarrow> jsnum" where
  "dmul x y = fl (jmul x y)"

definition ddiv :: "jsnum \<Rightarrow> jsnum \<Rightarrow> jsnum" where
  "ddiv x y = fl (jdivide x y)"

definition dsqrt :: "jsnum \<Rightarrow> jsnum" where
  "dsqrt x = fl (jsqrt x)"

text \<open>\<^verbatim>\<open>xs.reduce((a, b) => a + b, 0)\<close>, from the left.\<close>

definition dsum :: "jsnum list \<Rightarrow> jsnum" where
  "dsum xs = foldl dadd (Num 0) xs"

fun jabs :: "jsnum \<Rightarrow> jsnum" where
  "jabs (Num a) = Num \<bar>a\<bar>"
| "jabs PInf = PInf"
| "jabs NInf = PInf"
| "jabs NaN = NaN"

text \<open>\<^verbatim>\<open>x < y\<close> and \<^verbatim>\<open>x <= y\<close>: false when either side is NaN.\<close>

fun jless :: "jsnum \<Rightarrow> jsnum \<Rightarrow> bool" where
  "jless (Num a) (Num b) = (a < b)"
| "jless NaN y = False"
| "jless x NaN = False"
| "jless PInf y = False"
| "jless x NInf = False"
| "jless NInf y = True"
| "jless x PInf = True"

definition jleq :: "jsnum \<Rightarrow> jsnum \<Rightarrow> bool" where
  "jleq x y = (jless x y \<or> (x = y \<and> x \<noteq> NaN))"

text \<open>\<^verbatim>\<open>Math.min\<close> and \<^verbatim>\<open>Math.max\<close>: NaN when either argument is NaN.\<close>

definition jmin :: "jsnum \<Rightarrow> jsnum \<Rightarrow> jsnum" where
  "jmin x y = (if x = NaN \<or> y = NaN then NaN else if jless y x then y else x)"

definition jmax :: "jsnum \<Rightarrow> jsnum \<Rightarrow> jsnum" where
  "jmax x y = (if x = NaN \<or> y = NaN then NaN else if jless x y then y else x)"

text \<open>\<^verbatim>\<open>Math.round\<close>: the nearest integer, a half rounded up.\<close>

fun jround :: "jsnum \<Rightarrow> jsnum" where
  "jround (Num a) = Num (of_int \<lfloor>a + 1 / 2\<rfloor>)"
| "jround PInf = PInf"
| "jround NInf = NInf"
| "jround NaN = NaN"

section \<open>Shared data model\<close>

datatype action = BUY | SELL | HOLD

datatype risk_level = LOW | MEDIUM | HIGH

datatype risk_profile = CONSERVATIVE | MODERATE | AGGRESSIVE

record MarketData =
  symbol :: string
  price :: real
  volume :: real
  timestamp :: real
  change24h :: real
  change1h :: real
  high24h :: real
  low24h :: real

record TradingSignal =
  sig_action :: action
  sig_symbol :: string
  confidence :: real
  sig_price :: real
  sig_quantity :: real
  sig_timestamp :: real
  sig_riskLevel :: risk_level

record BotConfig =
  allocation :: real
  stopLoss :: real
  takeProfit :: "real option"
  maxPositions :: nat
  riskLevel :: risk_profile
  enabledAssets :: "string list"

text \<open>
  \<^verbatim>\<open>if (this.config.takeProfit)\<close>: an absent target and a target of 0 are both falsy.
\<close>

definition takeProfit_set :: "BotConfig \<Rightarrow> bool" where
  "takeProfit_set cfg = (case takeProfit cfg of None \<Rightarrow> False | Some t \<Rightarrow> t \<noteq> 0)"

subsection \<open>Maps in insertion order\<close>

fun map_get :: "('k \<times> 'v) list \<Rightarrow> 'k \<Rightarrow> 'v option" where
  "map_get [] k = None"
| "map_get ((k', v) # m) k = (if k' = k then Some v else map_get m k)"

text \<open>\<^verbatim>\<open>Map.set\<close>: an existing key keeps its place, a new key goes to the end.\<close>

fun map_set :: "('k \<times> 'v) list \<Rightarrow> 'k \<Rightarrow> 'v \<Rightarrow> ('k \<times> 'v) list" where
  "map_set [] k v = [(k, v)]"
| "map_set ((k', v') # m) k v = (if k' = k then (k, v) # m else (k', v') # map_set m k v)"

fun map_delete :: "('k \<times> 'v) list \<Rightarrow> 'k \<Rightarrow> ('k \<times> 'v) list" where
  "map_delete [] k = []"
| "map_delete ((k', v') # m) k = (if k' = k then m else (k', v') # map_delete m k)"

text \<open>
  \<^verbatim>\<open>xs.slice(-n)\<close> for a count \<open>n\<close>: the last \<open>n\<close> elements, and the whole array when
  \<open>n\<close> is 0 (\<^verbatim>\<open>slice(-0)\<close> is \<^verbatim>\<open>slice(0)\<close>).
\<close>

definition slice_last :: "nat \<Rightarrow> 'a list \<Rightarrow> 'a list" where
  "slice_last n xs = (if n = 0 then xs else drop (length xs - n) xs)"

section \<open>Risk manager: limits\<close>

record RiskLimits =
  maxPositionSize :: real
  maxTotalExposure :: real
  maxDrawdown :: real
  maxCorrelation :: real
  maxVolatility :: real
  minLiquidity :: real
  maxLeverage :: real
  emergencyStopLoss :: real

text \<open>\<^verbatim>\<open>Partial<RiskLimits>\<close>: every key may be absent.\<close>

record PartialRiskLimits =
  new_maxPositionSize :: "real option"
  new_maxTotalExposure :: "real option"
  new_maxDrawdown :: "real option"
  new_maxCorrelation :: "real option"
  new_maxVolatility :: "real option"
  new_minLiquidity :: "real option"
  new_maxLeverage :: "real option"
  new_emergencyStopLoss :: "real option"

record PerformancePoint =
  pp_timestamp :: real
  pp_value :: real
  pp_drawdown :: real

record RiskManager =
  riskLimits :: RiskLimits
  marketHistory :: "MarketData list"
  performanceHistory :: "PerformancePoint list"

definition override :: "'a \<Rightarrow> 'a option \<Rightarrow> 'a" where
  "override old new = (case new of None \<Rightarrow> old | Some v \<Rightarrow> v)"

text \<open>\<^verbatim>\<open>{ ...this.riskLimits, ...newLimits }\<close>\<close>

definition spread_limits :: "RiskLimits \<Rightarrow> PartialRiskLimits \<Rightarrow> RiskLimits" where
  "spread_limits l u =
     \<lparr> maxPositionSize = override (maxPositionSize l) (new_maxPositionSize u),
       maxTotalExposure = override (maxTotalExposure l) (new_maxTotalExposure u),
       maxDrawdown = override (maxDrawdown l) (new_maxDrawdown u),
       maxCorrelation = override (maxCorrelation l) (new_maxCorrelation u),
       maxVolatility = override (maxVolatility l) (new_maxVolatility u),
       minLiquidity = override (minLiquidity l) (new_minLiquidity u),
       maxLeverage = override (maxLeverage l) (new_maxLeverage u),
       emergencyStopLoss = override (emergencyStopLoss l) (new_emergencyStopLoss u) \<rparr>"

definition updateRiskLimits :: "RiskManager \<Rightarrow> PartialRiskLimits \<Rightarrow> RiskManager" where
  "updateRiskLimits rm newLimits = rm\<lparr> riskLimits := spread_limits (riskLimits rm) newLimits \<rparr>"

definition getRiskLimits :: "RiskManager \<Rightarrow> RiskLimits" where
  "getRiskLimits rm = riskLimits rm"

section \<open>Momentum evaluator\<close>

record Position =
  pos_symbol :: string
  pos_quantity :: real
  entryPrice :: real
  currentPrice :: real
  pnl :: real
  pnlPercentage :: real
  pos_timestamp :: real

text \<open>
  The state of a \<^verbatim>\<open>MomentumTradingBot\<close>. The performance summary that \<^verbatim>\<open>updatePosition\<close>
  recomputes is read by no evaluation and is left out, here and in the other evaluators.
\<close>

record MomentumTradingBot =
  positions :: "(string \<times> Position) list"
  priceHistory :: "(string \<times> MarketData list) list"
  lastRebalance :: real

definition new_MomentumTradingBot :: MomentumTradingBot where
  "new_MomentumTradingBot = \<lparr> positions = [], priceHistory = [], lastRebalance = 0 \<rparr>"

definition momentum_updatePosition ::
  "real \<Rightarrow> MomentumTradingBot \<Rightarrow> string \<Rightarrow> action \<Rightarrow> real \<Rightarrow> real \<Rightarrow> MomentumTradingBot" where
  "momentum_updatePosition now st smb act quantity prc =
     (case act of
        BUY \<Rightarrow>
          (case map_get (positions st) smb of
             Some cur \<Rightarrow>
               (let totalQuantity = pos_quantity cur + quantity;
                    totalValue = pos_quantity cur * entryPrice cur + quantity * prc;
                    newEntryPrice = totalValue / totalQuantity
                in st\<lparr> positions := map_set (positions st) smb
                     \<lparr> pos_symbol = smb,
                       pos_quantity = totalQuantity,
                       entryPrice = newEntryPrice,
                       currentPrice = prc,
                       pnl = (prc - newEntryPrice) * totalQuantity,
                       pnlPercentage = ((prc - newEntryPrice) / newEntryPrice) * 100,
                       pos_timestamp = now \<rparr> \<rparr>)
           | None \<Rightarrow>
               st\<lparr> positions := map_set (positions st) smb
                 \<lparr> pos_symbol = smb,
                   pos_quantity = quantity,
                   entryPrice = prc,
                   currentPrice = prc,
                   pnl = 0,
                   pnlPercentage = 0,
                   pos_timestamp = now \<rparr> \<rparr>)
      | SELL \<Rightarrow>
          (case map_get (positions st) smb of
             Some cur \<Rightarrow>
               (let remainingQuantity = pos_quantity cur - quantity
                in if remainingQuantity \<le> 0.001
                   then st\<lparr> positions := map_delete (positions st) smb \<rparr>
                   else st\<lparr> positions := map_set (positions st) smb
                     (cur\<lparr> pos_quantity := remainingQuantity,
                          currentPrice := prc,
                          pnl := (prc - entryPrice cur) * remainingQuantity,
                          pnlPercentage := ((prc - entryPrice cur) / entryPrice cur) * 100 \<rparr>) \<rparr>)
           | None \<Rightarrow> st)
      | HOLD \<Rightarrow> st)"

subsection \<open>Momentum scores\<close>

text \<open>Consecutive pairs \<^verbatim>\<open>(xs[i - 1], xs[i])\<close> for \<^verbatim>\<open>i = 1 .. xs.length - 1\<close>.\<close>

definition steps :: "'a list \<Rightarrow> ('a \<times> 'a) list" where
  "steps xs = zip xs (tl xs)"

definition calculateVolumeTrend :: "MarketData list \<Rightarrow> real" where
  "calculateVolumeTrend history =
     (if length history < 4 then 0
      else
        (let recent = slice_last 4 history;
             volumes = map volume recent;
             avgVolume = sum_list volumes / real (length volumes);
             latestVolume = last volumes
         in (latestVolume - avgVolume) / avgVolume))"

definition calculateShortTermMomentum :: "MarketData list \<Rightarrow> real" where
  "calculateShortTermMomentum history =
     (if length history < 4 then 0
      else
        (let recent = slice_last 4 history;
             priceChange = (price (last recent) - price (hd recent)) / price (hd recent);
             volumeTrend = calculateVolumeTrend recent
         in priceChange * 100 * (1 + volumeTrend)))"

definition calculateTrendConsistency :: "MarketData list \<Rightarrow> real" where
  "calculateTrendConsistency history =
     (if length history < 10 then 0
      else
        (let recent = slice_last 10 history;
             positiveChanges = length (filter (\<lambda>(a, b). price b > price a) (steps recent))
         in real positiveChanges / (real (length recent) - 1)))"

definition calculateMediumTermMomentum :: "MarketData list \<Rightarrow> real" where
  "calculateMediumTermMomentum history =
     (if length history < 24 then 0
      else
        (let recent = slice_last 24 history;
             priceChange = (price (last recent) - price (hd recent)) / price (hd recent);
             consistency = calculateTrendConsistency recent
         in priceChange * 100 * consistency))"

definition calculateVolumeWeightedMomentum :: "MarketData list \<Rightarrow> real" where
  "calculateVolumeWeightedMomentum history =
     (if length history < 10 then 0
      else
        (let recent = slice_last 10 history;
             weightedPriceChange =
               sum_list (map (\<lambda>(a, b). ((price b - price a) / price a) * volume b) (steps recent));
             totalVolume = sum_list (map (\<lambda>(a, b). volume b) (steps recent))
         in if totalVolume > 0 then (weightedPriceChange / totalVolume) * 100 else 0))"

definition calculateVolatility :: "MarketData list \<Rightarrow> real" where
  "calculateVolatility history =
     (if length history < 10 then 0
      else
        (let prices = map price history;
             returns = map (\<lambda>(a, b). (b - a) / a) (steps prices);
             mean = sum_list returns / real (length returns);
             variance = sum_list (map (\<lambda>ret. (ret - mean)\<^sup>2) returns) / real (length returns)
         in sqrt variance))"

definition calculateVolatilityAdjustedMomentum :: "MarketData list \<Rightarrow> real" where
  "calculateVolatilityAdjustedMomentum history =
     (if length history < 20 then 0
      else
        (let recent = slice_last 20 history;
             volatility = calculateVolatility recent;
             momentum = calculateShortTermMomentum recent
         in if volatility > 0 then momentum / (1 + volatility) else momentum))"

definition calculateRSquared :: "real list \<Rightarrow> real list \<Rightarrow> real \<Rightarrow> real" where
  "calculateRSquared prices x slope =
     (let n = length prices;
          sumY = sum_list prices;
          meanY = sumY / real n;
          ssRes = sum_list (map (\<lambda>(p, xi). (p - slope * xi)\<^sup>2) (zip prices x));
          ssTot = sum_list (map (\<lambda>p. (p - meanY)\<^sup>2) prices)
      in if ssTot > 0 then 1 - ssRes / ssTot else 0)"

definition calculateTrendStrength :: "MarketData list \<Rightarrow> real" where
  "calculateTrendStrength history =
     (if length history < 10 then 0
      else
        (let recent = slice_last 10 history;
             prices = map price recent;
             n = length prices;
             x = map real [0..<n];
             sumX = sum_list x;
             sumY = sum_list prices;
             sumXY = sum_list (map (\<lambda>(xi, p). xi * p) (zip x prices));
             sumXX = sum_list (map (\<lambda>xi. xi * xi) x);
             slope = (real n * sumXY - sumX * sumY) / (real n * sumXX - sumX * sumX);
             rSquared = calculateRSquared prices x slope
         in slope * rSquared * 100))"

record MomentumWeights =
  w_shortTerm :: real
  w_mediumTerm :: real
  w_volumeWeighted :: real
  w_volatilityAdjusted :: real
  w_trendStrength :: real

definition getMomentumWeights :: "BotConfig \<Rightarrow> MomentumWeights" where
  "getMomentumWeights cfg =
     (case riskLevel cfg of
        CONSERVATIVE \<Rightarrow>
          \<lparr> w_shortTerm = 0.2, w_mediumTerm = 0.4, w_volumeWeighted = 0.2,
            w_volatilityAdjusted = 0.15, w_trendStrength = 0.05 \<rparr>
      | MODERATE \<Rightarrow>
          \<lparr> w_shortTerm = 0.3, w_mediumTerm = 0.3, w_volumeWeighted = 0.2,
            w_volatilityAdjusted = 0.15, w_trendStrength = 0.05 \<rparr>
      | AGGRESSIVE \<Rightarrow>
          \<lparr> w_shortTerm = 0.4, w_mediumTerm = 0.2, w_volumeWeighted = 0.2,
            w_volatilityAdjusted = 0.1, w_trendStrength = 0.1 \<rparr>)"

record ScoredAsset =
  sa_symbol :: string
  sa_score :: real
  sa_data :: MarketData

definition momentum_score :: "BotConfig \<Rightarrow> MarketData list \<Rightarrow> real" where
  "momentum_score cfg history =
     (if length history < 10 then 0
      else
        (let weights = getMomentumWeights cfg
         in calculateShortTermMomentum history * w_shortTerm weights
          + calculateMediumTermMomentum history * w_mediumTerm weights
          + calculateVolumeWeightedMomentum history * w_volumeWeighted weights
          + calculateVolatilityAdjustedMomentum history * w_volatilityAdjusted weights
          + calculateTrendStrength history * w_trendStrength weights))"

definition history_of :: "(string \<times> 'a list) list \<Rightarrow> string \<Rightarrow> 'a list" where
  "history_of h smb = (case map_get h smb of None \<Rightarrow> [] | Some xs \<Rightarrow> xs)"

definition calculateMomentumScores ::
  "BotConfig \<Rightarrow> MomentumTradingBot \<Rightarrow> MarketData list \<Rightarrow> ScoredAsset list" where
  "calculateMomentumScores cfg st marketData =
     map (\<lambda>d. \<lparr> sa_symbol = symbol d,
                sa_score = momentum_score cfg (history_of (priceHistory st) (symbol d)),
                sa_data = d \<rparr>) marketData"

subsection \<open>Momentum signals\<close>

definition rebalance_sells ::
  "real \<Rightarrow> MomentumTradingBot \<Rightarrow> ScoredAsset list \<Rightarrow> string list \<Rightarrow> TradingSignal list" where
  "rebalance_sells now st topPerformers currentPositions =
     List.map_filter
       (\<lambda>smb. if smb \<in> set (map sa_symbol topPerformers) then None
               else (case map_get (positions st) smb of
                       None \<Rightarrow> None
                     | Some position \<Rightarrow>
                         Some \<lparr> sig_action = SELL, sig_symbol = smb, confidence = 85,
                                sig_price = currentPrice position,
                                sig_quantity = pos_quantity position,
                                sig_timestamp = now, sig_riskLevel = MEDIUM \<rparr>))
       currentPositions"

definition rebalance_buys ::
  "BotConfig \<Rightarrow> real \<Rightarrow> MomentumTradingBot \<Rightarrow> ScoredAsset list \<Rightarrow> TradingSignal list" where
  "rebalance_buys cfg now st topPerformers =
     (let allocationPerPosition = allocation cfg / real (maxPositions cfg)
      in List.map_filter
           (\<lambda>asset.
              (let targetQuantity = allocationPerPosition / price (sa_data asset)
               in case map_get (positions st) (sa_symbol asset) of
                    None \<Rightarrow>
                      Some \<lparr> sig_action = BUY, sig_symbol = sa_symbol asset,
                             confidence = min 95 (60 + sa_score asset),
                             sig_price = price (sa_data asset),
                             sig_quantity = targetQuantity,
                             sig_timestamp = now,
                             sig_riskLevel = (if sa_score asset > 50 then HIGH else MEDIUM) \<rparr>
                  | Some currentPosition \<Rightarrow>
                      (if \<bar>pos_quantity currentPosition - targetQuantity\<bar> / targetQuantity > 0.1
                       then
                         (let quantityDiff = targetQuantity - pos_quantity currentPosition
                          in Some \<lparr> sig_action = (if quantityDiff > 0 then BUY else SELL),
                                    sig_symbol = sa_symbol asset,
                                    confidence = 75,
                                    sig_price = price (sa_data asset),
                                    sig_quantity = \<bar>quantityDiff\<bar>,
                                    sig_timestamp = now, sig_riskLevel = MEDIUM \<rparr>)
                       else None)))
           topPerformers)"

definition generateRebalancingSignals ::
  "BotConfig \<Rightarrow> real \<Rightarrow> MomentumTradingBot \<Rightarrow> ScoredAsset list \<Rightarrow> string list
     \<Rightarrow> TradingSignal list" where
  "generateRebalancingSignals cfg now st topPerformers currentPositions =
     rebalance_sells now st topPerformers currentPositions
       @ rebalance_buys cfg now st topPerformers"

definition checkStopLossTriggers ::
  "BotConfig \<Rightarrow> real \<Rightarrow> MomentumTradingBot \<Rightarrow> TradingSignal list" where
  "checkStopLossTriggers cfg now st =
     List.map_filter
       (\<lambda>(smb, position).
          (let lossPercentage = \<bar>pnlPercentage position\<bar>
           in if lossPercentage \<ge> stopLoss cfg
              then Some \<lparr> sig_action = SELL, sig_symbol = smb, confidence = 100,
                          sig_price = currentPrice position,
                          sig_quantity = pos_quantity position,
                          sig_timestamp = now, sig_riskLevel = HIGH \<rparr>
              else None))
       (positions st)"

definition checkTakeProfitTriggers ::
  "BotConfig \<Rightarrow> real \<Rightarrow> MomentumTradingBot \<Rightarrow> TradingSignal list" where
  "checkTakeProfitTriggers cfg now st =
     (if \<not> takeProfit_set cfg then []
      else List.map_filter
        (\<lambda>(smb, position).
           if pnlPercentage position \<ge> the (takeProfit cfg)
           then Some \<lparr> sig_action = SELL, sig_symbol = smb, confidence = 90,
                       sig_price = currentPrice position,
                       sig_quantity = pos_quantity position,
                       sig_timestamp = now, sig_riskLevel = LOW \<rparr>
           else None)
        (positions st))"

text \<open>
  One observation enters the history of its symbol, which keeps its last 1000 entries.
\<close>

definition momentum_record ::
  "(string \<times> MarketData list) list \<Rightarrow> MarketData \<Rightarrow> (string \<times> MarketData list) list" where
  "momentum_record h d =
     (let history = history_of h (symbol d) @ [d]
      in map_set h (symbol d) (if length history > 1000 then tl history else history))"

text \<open>
  \<^verbatim>\<open>analyzeMarket\<close> of the momentum evaluator: the signals returned and the state left.
  The return inside the rebalance gate comes before the stop-loss and take-profit
  checks, as in the source.
\<close>

definition momentum_analyzeMarket ::
  "BotConfig \<Rightarrow> real \<Rightarrow> MomentumTradingBot \<Rightarrow> MarketData list
     \<Rightarrow> TradingSignal list \<times> MomentumTradingBot" where
  "momentum_analyzeMarket cfg now st marketData =
     (let st1 = st\<lparr> priceHistory := foldl momentum_record (priceHistory st) marketData \<rparr>
      in if now - lastRebalance st1 < 15 * 60 * 1000 then ([], st1)
         else
           (let momentumScores = calculateMomentumScores cfg st1 marketData;
                sortedAssets =
                  filter (\<lambda>asset. sa_symbol asset \<in> set (enabledAssets cfg))
                    (sort_key (\<lambda>asset. - sa_score asset) momentumScores);
                topPerformers = take (maxPositions cfg) sortedAssets;
                currentPositions = map fst (positions st1);
                signals =
                  generateRebalancingSignals cfg now st1 topPerformers currentPositions
                    @ checkStopLossTriggers cfg now st1
                    @ (if takeProfit_set cfg then checkTakeProfitTriggers cfg now st1 else [])
            in (signals, st1\<lparr> lastRebalance := now \<rparr>)))"

section \<open>Channel-index evaluator\<close>

datatype cci_signal = OVERBOUGHT | OVERSOLD | NEUTRAL

datatype cci_trend = BULLISH | BEARISH | SIDEWAYS

record CCIData =
  cd_symbol :: string
  cd_timestamp :: real
  cd_price :: real
  high :: real
  low :: real
  close :: real
  cd_volume :: real
  cci :: real
  cciMA :: real
  cciSignal :: cci_signal
  trend :: cci_trend
  strength :: real

record CCIConfig =
  period :: nat
  overboughtLevel :: real
  oversoldLevel :: real
  extremeOverbought :: real
  extremeOversold :: real
  maPeriod :: nat
  volumeThreshold :: real
  trendConfirmationPeriod :: nat

definition default_CCIConfig :: CCIConfig where
  "default_CCIConfig =
     \<lparr> period = 20, overboughtLevel = 100, oversoldLevel = - 100, extremeOverbought = 200,
       extremeOversold = - 200, maPeriod = 5, volumeThreshold = 1.2,
       trendConfirmationPeriod = 10 \<rparr>"

datatype position_status = ACTIVE | CLOSED

record CCIPosition =
  cp_symbol :: string
  cp_quantity :: real
  cp_entryPrice :: real
  cp_currentPrice :: real
  cp_pnl :: real
  cp_pnlPercentage :: real
  entrySignal :: string
  entryTimestamp :: real
  cp_stopLoss :: real
  cp_takeProfit :: real
  cp_status :: position_status

record CCIMarketBot =
  cci_positions :: "(string \<times> CCIPosition) list"
  cci_priceHistory :: "(string \<times> CCIData list) list"
  lastAnalysis :: real

text \<open>
  \<^verbatim>\<open>updatePriceHistory\<close>: the observation enters the history of its symbol, which keeps its
  last \<open>period + maPeriod + 10\<close> entries.
\<close>

definition updatePriceHistory ::
  "CCIConfig \<Rightarrow> (string \<times> CCIData list) list \<Rightarrow> MarketData \<Rightarrow> (string \<times> CCIData list) list" where
  "updatePriceHistory cciConfig h marketData =
     (let history = history_of h (symbol marketData)
            @ [\<lparr> cd_symbol = symbol marketData, cd_timestamp = timestamp marketData,
                 cd_price = price marketData, high = high24h marketData,
                 low = low24h marketData, close = price marketData,
                 cd_volume = volume marketData, cci = 0, cciMA = 0, cciSignal = NEUTRAL,
                 trend = SIDEWAYS, strength = 0 \<rparr>];
          maxHistory = period cciConfig + maPeriod cciConfig + 10
      in map_set h (symbol marketData)
           (if length history > maxHistory then tl history else history))"

text \<open>
  \<^verbatim>\<open>computeCCI\<close>, in doubles. \<^verbatim>\<open>typicalPrices[typicalPrices.length - 1]\<close> of an empty
  array is \<^verbatim>\<open>undefined\<close>, which is NaN in the subtraction.
\<close>

definition computeCCI :: "CCIConfig \<Rightarrow> CCIData list \<Rightarrow> jsnum" where
  "computeCCI cciConfig history =
     (let recent = slice_last (period cciConfig) history;
          typicalPrices =
            map (\<lambda>d. ddiv (dadd (dadd (Num (high d)) (Num (low d))) (Num (close d))) (Num 3))
              recent;
          smaTP = ddiv (dsum typicalPrices) (Num (real (period cciConfig)));
          meanDeviation =
            ddiv (dsum (map (\<lambda>tp. jabs (dsub tp smaTP)) typicalPrices))
              (Num (real (period cciConfig)));
          currentTP = (if typicalPrices = [] then NaN else last typicalPrices)
      in if meanDeviation \<noteq> Num 0
         then ddiv (dsub currentTP smaTP) (dmul (lit 0.015) meanDeviation)
         else Num 0)"

definition cci_updatePosition ::
  "BotConfig \<Rightarrow> real \<Rightarrow> CCIMarketBot \<Rightarrow> string \<Rightarrow> action \<Rightarrow> real \<Rightarrow> real \<Rightarrow> CCIMarketBot" where
  "cci_updatePosition cfg now st smb act quantity prc =
     (case act of
        BUY \<Rightarrow>
          (case map_get (cci_positions st) smb of
             Some cur \<Rightarrow>
               (let totalQuantity = cp_quantity cur + quantity;
                    totalValue = cp_quantity cur * cp_entryPrice cur + quantity * prc;
                    newEntryPrice = totalValue / totalQuantity
                in st\<lparr> cci_positions := map_set (cci_positions st) smb
                     (cur\<lparr> cp_quantity := totalQuantity,
                          cp_entryPrice := newEntryPrice,
                          cp_currentPrice := prc,
                          cp_pnl := (prc - newEntryPrice) * totalQuantity,
                          cp_pnlPercentage := ((prc - newEntryPrice) / newEntryPrice) * 100 \<rparr>) \<rparr>)
           | None \<Rightarrow>
               st\<lparr> cci_positions := map_set (cci_positions st) smb
                 \<lparr> cp_symbol = smb,
                   cp_quantity = quantity,
                   cp_entryPrice = prc,
                   cp_currentPrice = prc,
                   cp_pnl = 0,
                   cp_pnlPercentage = 0,
                   entrySignal = ''CCI Oversold'',
                   entryTimestamp = now,
                   cp_stopLoss = prc * (1 - stopLoss cfg / 100),
                   cp_takeProfit =
                     (if takeProfit_set cfg then prc * (1 + the (takeProfit cfg) / 100) else 0),
                   cp_status = ACTIVE \<rparr> \<rparr>)
      | SELL \<Rightarrow>
          (case map_get (cci_positions st) smb of
             Some cur \<Rightarrow>
               (let remainingQuantity = cp_quantity cur - quantity
                in if remainingQuantity \<le> 0.001
                   then st\<lparr> cci_positions := map_delete (cci_positions st) smb \<rparr>
                   else st\<lparr> cci_positions := map_set (cci_positions st) smb
                     (cur\<lparr> cp_quantity := remainingQuantity,
                          cp_currentPrice := prc,
                          cp_pnl := (prc - cp_entryPrice cur) * remainingQuantity,
                          cp_pnlPercentage :=
                            ((prc - cp_entryPrice cur) / cp_entryPrice cur) * 100 \<rparr>) \<rparr>)
           | None \<Rightarrow> st)
      | HOLD \<Rightarrow> st)"

section \<open>Dollar-cost-averaging evaluator\<close>

datatype dca_frequency = DAILY | WEEKLY | MONTHLY | CUSTOM

record DCASchedule =
  frequency :: dca_frequency
  interval :: real
  dca_amount :: real
  startDate :: real
  endDate :: "real option"
  maxPurchases :: "nat option"

record Purchase =
  pu_date :: real
  pu_price :: real
  pu_quantity :: real
  pu_amount :: real

record DCAPosition =
  dp_symbol :: string
  totalQuantity :: real
  totalInvested :: real
  averagePrice :: real
  currentValue :: real
  totalPnL :: real
  totalPnLPercentage :: real
  purchases :: "Purchase list"
  lastPurchase :: real
  nextPurchase :: real

record DCATradingBot =
  dca_positions :: "(string \<times> DCAPosition) list"
  dca_marketData :: "(string \<times> MarketData list) list"

definition new_DCATradingBot :: DCATradingBot where
  "new_DCATradingBot = \<lparr> dca_positions = [], dca_marketData = [] \<rparr>"

definition getIntervalMs :: "DCASchedule \<Rightarrow> real" where
  "getIntervalMs schedule =
     (case frequency schedule of
        DAILY \<Rightarrow> 24 * 60 * 60 * 1000
      | WEEKLY \<Rightarrow> 7 * 24 * 60 * 60 * 1000
      | MONTHLY \<Rightarrow> 30 * 24 * 60 * 60 * 1000
      | CUSTOM \<Rightarrow> interval schedule * 60 * 60 * 1000)"

definition dca_updatePosition ::
  "DCASchedule \<Rightarrow> real \<Rightarrow> DCATradingBot \<Rightarrow> string \<Rightarrow> action \<Rightarrow> real \<Rightarrow> real \<Rightarrow> DCATradingBot" where
  "dca_updatePosition schedule now st smb act quantity prc =
     (case act of
        BUY \<Rightarrow>
          (let amount = quantity * prc;
               bought = \<lparr> pu_date = now, pu_price = prc, pu_quantity = quantity, pu_amount = amount \<rparr>
           in case map_get (dca_positions st) smb of
                Some cur \<Rightarrow>
                  (let newTotalQuantity = totalQuantity cur + quantity;
                       newTotalInvested = totalInvested cur + amount;
                       newAveragePrice = newTotalInvested / newTotalQuantity
                   in st\<lparr> dca_positions := map_set (dca_positions st) smb
                        \<lparr> dp_symbol = smb,
                          totalQuantity = newTotalQuantity,
                          totalInvested = newTotalInvested,
                          averagePrice = newAveragePrice,
                          currentValue = newTotalQuantity * prc,
                          totalPnL = (prc - newAveragePrice) * newTotalQuantity,
                          totalPnLPercentage = ((prc - newAveragePrice) / newAveragePrice) * 100,
                          purchases = purchases cur @ [bought],
                          lastPurchase = now,
                          nextPurchase = now + getIntervalMs schedule \<rparr> \<rparr>)
              | None \<Rightarrow>
                  st\<lparr> dca_positions := map_set (dca_positions st) smb
                    \<lparr> dp_symbol = smb,
                      totalQuantity = quantity,
                      totalInvested = amount,
                      averagePrice = prc,
                      currentValue = quantity * prc,
                      totalPnL = 0,
                      totalPnLPercentage = 0,
                      purchases = [bought],
                      lastPurchase = now,
                      nextPurchase = now + getIntervalMs schedule \<rparr> \<rparr>)
      | SELL \<Rightarrow>
          (case map_get (dca_positions st) smb of
             Some cur \<Rightarrow> st\<lparr> dca_positions := map_delete (dca_positions st) smb \<rparr>
           | None \<Rightarrow> st)
      | HOLD \<Rightarrow> st)"

subsection \<open>DCA signals\<close>

text \<open>
  \<^verbatim>\<open>if (this.schedule.endDate && ...)\<close> and \<^verbatim>\<open>if (this.schedule.maxPurchases && ...)\<close>:
  an absent bound and a bound of 0 are both falsy.
\<close>

definition shouldMakePurchase :: "DCASchedule \<Rightarrow> DCAPosition option \<Rightarrow> real \<Rightarrow> bool" where
  "shouldMakePurchase schedule position now =
     (if now < startDate schedule then False
      else if (case endDate schedule of None \<Rightarrow> False | Some e \<Rightarrow> e \<noteq> 0 \<and> now > e) then False
      else if (case (maxPurchases schedule, position) of
                 (Some m, Some pos) \<Rightarrow> m \<noteq> 0 \<and> length (purchases pos) \<ge> m
               | _ \<Rightarrow> False) then False
      else (case position of
              None \<Rightarrow> True
            | Some pos \<Rightarrow> now - lastPurchase pos \<ge> getIntervalMs schedule))"

definition dca_calculateVolatility :: "DCATradingBot \<Rightarrow> string \<Rightarrow> real" where
  "dca_calculateVolatility st smb =
     (let history = history_of (dca_marketData st) smb
      in if length history < 10 then 0
         else
           (let prices = map price (slice_last 20 history);
                returns = map (\<lambda>(a, b). (b - a) / a) (steps prices);
                mean = sum_list returns / real (length returns);
                variance = sum_list (map (\<lambda>ret. (ret - mean)\<^sup>2) returns) / real (length returns)
            in sqrt variance))"

text \<open>The latest volume over the mean of the last ten: NaN when all ten are 0.\<close>

definition calculateVolumeRatio :: "DCATradingBot \<Rightarrow> string \<Rightarrow> jsnum" where
  "calculateVolumeRatio st smb =
     (let history = history_of (dca_marketData st) smb
      in if length history < 10 then Num 1
         else
           (let recentVolumes = map volume (slice_last 10 history);
                avgVolume = sum_list recentVolumes / real (length recentVolumes);
                latestVolume = last recentVolumes
            in jdiv latestVolume avgVolume))"

definition applyDynamicSizing ::
  "BotConfig \<Rightarrow> DCATradingBot \<Rightarrow> real \<Rightarrow> MarketData \<Rightarrow> DCAPosition option \<Rightarrow> real" where
  "applyDynamicSizing cfg st baseAmount assetData position =
     (let volatility = dca_calculateVolatility st (symbol assetData);
          m1 = (if volatility > 0.05 then 0.8 else if volatility < 0.02 then 1.2 else 1.0);
          m2 = (case position of
                  None \<Rightarrow> m1
                | Some pos \<Rightarrow>
                    (let priceChange = (price assetData - averagePrice pos) / averagePrice pos
                     in if priceChange < - 0.1 then m1 * 1.5
                        else if priceChange > 0.2 then m1 * 0.7
                        else m1));
          volumeRatio = calculateVolumeRatio st (symbol assetData);
          m3 = (if jgt volumeRatio 1.5 then m2 * 1.1
                else if jlt volumeRatio 0.5 then m2 * 0.9
                else m2);
          multiplier = (case riskLevel cfg of
                          CONSERVATIVE \<Rightarrow> m3 * 0.8
                        | AGGRESSIVE \<Rightarrow> m3 * 1.3
                        | MODERATE \<Rightarrow> m3)
      in max (baseAmount * 0.5) (min (baseAmount * 2.0) (baseAmount * multiplier)))"

definition calculateDCAConfidence ::
  "BotConfig \<Rightarrow> DCATradingBot \<Rightarrow> MarketData \<Rightarrow> DCAPosition option \<Rightarrow> real" where
  "calculateDCAConfidence cfg st assetData position =
     (let c0 = 70;
          c1 = (if change24h assetData < - 5 then c0 + 15
                else if change24h assetData > 10 then c0 - 10
                else c0);
          volumeRatio = calculateVolumeRatio st (symbol assetData);
          c2 = (if jgt volumeRatio 1.2 then c1 + 5
                else if jlt volumeRatio 0.8 then c1 - 5
                else c1);
          c3 = (case position of
                  None \<Rightarrow> c2
                | Some pos \<Rightarrow>
                    (let positionSize = (totalInvested pos / allocation cfg) * 100
                     in if positionSize < 20 then c2 + 10
                        else if positionSize > 50 then c2 - 10
                        else c2))
      in max 30 (min 95 c3))"

definition dca_calculateRiskLevel ::
  "BotConfig \<Rightarrow> DCATradingBot \<Rightarrow> MarketData \<Rightarrow> DCAPosition option \<Rightarrow> risk_level" where
  "dca_calculateRiskLevel cfg st assetData position =
     (let volatility = dca_calculateVolatility st (symbol assetData);
          r1 = (if volatility > 0.08 then 3
                else if volatility > 0.05 then 2
                else if volatility > 0.03 then 1
                else (0::nat));
          r2 = (if \<bar>change24h assetData\<bar> > 15 then r1 + 2
                else if \<bar>change24h assetData\<bar> > 10 then r1 + 1
                else r1);
          volumeRatio = calculateVolumeRatio st (symbol assetData);
          r3 = (if jlt volumeRatio 0.5 then r2 + 1 else r2);
          riskScore = (case position of
                         None \<Rightarrow> r3
                       | Some pos \<Rightarrow>
                           (if (totalInvested pos / allocation cfg) * 100 > 40 then r3 + 1 else r3))
      in if riskScore \<ge> 4 then HIGH else if riskScore \<ge> 2 then MEDIUM else LOW)"

definition generateDCASignal ::
  "BotConfig \<Rightarrow> DCASchedule \<Rightarrow> real \<Rightarrow> DCATradingBot \<Rightarrow> string \<Rightarrow> MarketData
     \<Rightarrow> DCAPosition option \<Rightarrow> TradingSignal" where
  "generateDCASignal cfg schedule now st smb assetData position =
     (let adjustedAmount = applyDynamicSizing cfg st (dca_amount schedule) assetData position;
          adjustedQuantity = adjustedAmount / price assetData
      in \<lparr> sig_action = BUY, sig_symbol = smb,
           confidence = calculateDCAConfidence cfg st assetData position,
           sig_price = price assetData,
           sig_quantity = adjustedQuantity,
           sig_timestamp = now,
           sig_riskLevel = dca_calculateRiskLevel cfg st assetData position \<rparr>)"

definition checkEmergencyStopLoss ::
  "BotConfig \<Rightarrow> real \<Rightarrow> DCAPosition \<Rightarrow> MarketData \<Rightarrow> TradingSignal option" where
  "checkEmergencyStopLoss cfg now position assetData =
     (let value = totalQuantity position * price assetData;
          pnlPct = ((value - totalInvested position) / totalInvested position) * 100
      in if pnlPct \<le> - stopLoss cfg
         then Some \<lparr> sig_action = SELL, sig_symbol = dp_symbol position, confidence = 100,
                     sig_price = price assetData,
                     sig_quantity = totalQuantity position,
                     sig_timestamp = now, sig_riskLevel = HIGH \<rparr>
         else None)"

definition shouldTakeProfit :: "BotConfig \<Rightarrow> DCAPosition \<Rightarrow> MarketData \<Rightarrow> bool" where
  "shouldTakeProfit cfg position assetData =
     (if \<not> takeProfit_set cfg then False
      else
        (let value = totalQuantity position * price assetData;
             pnlPct = ((value - totalInvested position) / totalInvested position) * 100
         in pnlPct \<ge> the (takeProfit cfg)))"

definition generateTakeProfitSignal :: "real \<Rightarrow> DCAPosition \<Rightarrow> MarketData \<Rightarrow> TradingSignal" where
  "generateTakeProfitSignal now position assetData =
     \<lparr> sig_action = SELL, sig_symbol = dp_symbol position, confidence = 90,
       sig_price = price assetData,
       sig_quantity = totalQuantity position,
       sig_timestamp = now, sig_riskLevel = LOW \<rparr>"

text \<open>
  One observation enters the history of its symbol; once the history is longer than
  1000 + 200 entries it is cut back to its last 1000.
\<close>

definition dca_record ::
  "(string \<times> MarketData list) list \<Rightarrow> MarketData \<Rightarrow> (string \<times> MarketData list) list" where
  "dca_record h d =
     (let history = history_of h (symbol d) @ [d]
      in map_set h (symbol d)
           (if length history > 1000 + 200 then drop (length history - 1000) history
            else history))"

text \<open>The signals of one enabled symbol, in the order the source appends them.\<close>

definition dca_symbol_signals ::
  "BotConfig \<Rightarrow> DCASchedule \<Rightarrow> real \<Rightarrow> DCATradingBot \<Rightarrow> MarketData list \<Rightarrow> string
     \<Rightarrow> TradingSignal list" where
  "dca_symbol_signals cfg schedule now st marketData smb =
     (let position = map_get (dca_positions st) smb
      in case find (\<lambda>d. symbol d = smb) marketData of
           None \<Rightarrow> []
         | Some assetData \<Rightarrow>
             (if shouldMakePurchase schedule position now
              then [generateDCASignal cfg schedule now st smb assetData position] else [])
             @ (case position of
                  None \<Rightarrow> []
                | Some pos \<Rightarrow>
                    (if stopLoss cfg > 0
                     then (case checkEmergencyStopLoss cfg now pos assetData of
                             None \<Rightarrow> [] | Some s \<Rightarrow> [s])
                     else [])
                    @ (if takeProfit_set cfg \<and> shouldTakeProfit cfg pos assetData
                       then [generateTakeProfitSignal now pos assetData] else [])))"

definition dca_analyzeMarket ::
  "BotConfig \<Rightarrow> DCASchedule \<Rightarrow> real \<Rightarrow> DCATradingBot \<Rightarrow> MarketData list
     \<Rightarrow> TradingSignal list \<times> DCATradingBot" where
  "dca_analyzeMarket cfg schedule now st marketData =
     (let st1 = st\<lparr> dca_marketData := foldl dca_record (dca_marketData st) marketData \<rparr>
      in (concat (map (dca_symbol_signals cfg schedule now st1 marketData) (enabledAssets cfg)),
          st1))"

section \<open>Staking evaluator\<close>

datatype liquidity_level = LIQUIDITY_HIGH | LIQUIDITY_MEDIUM | LIQUIDITY_LOW

datatype compound_frequency = COMPOUND_DAILY | COMPOUND_WEEKLY | COMPOUND_MONTHLY

datatype staking_status = STAKE_ACTIVE | UNLOCKING | UNLOCKED

text \<open>
  The arithmetic of this section is in doubles: a computed number (an APY, a score, an
  allocated amount) is a \<open>jsnum\<close>, a number of the tables is the double of its literal.
\<close>

record StakingOpportunity =
  so_symbol :: string
  platform :: string
  apy :: jsnum
  minStake :: real
  maxStake :: "real option"
  lockPeriod :: real
  so_riskLevel :: risk_level
  liquidity :: liquidity_level
  compoundFrequency :: compound_frequency
  fees :: real
  lastUpdated :: real

record StakingPosition =
  sp_symbol :: string
  sp_platform :: string
  stakedAmount :: real
  sp_apy :: jsnum
  sp_startDate :: real
  sp_endDate :: real
  sp_lockPeriod :: real
  sp_compoundFrequency :: compound_frequency
  estimatedRewards :: jsnum
  actualRewards :: real
  sp_status :: staking_status
  sp_riskLevel :: risk_level

record StakingAllocation =
  al_symbol :: string
  al_platform :: string
  amount :: jsnum
  al_apy :: jsnum
  priority :: jsnum

record SmartStakingBot =
  staking_positions :: "(string \<times> StakingPosition) list"
  opportunities :: "(string \<times> StakingOpportunity list) list"
  lastOptimization :: real

definition new_SmartStakingBot :: SmartStakingBot where
  "new_SmartStakingBot = \<lparr> staking_positions = [], opportunities = [], lastOptimization = 0 \<rparr>"

subsection \<open>The tables of the simulated platforms\<close>

text \<open>
  \<^verbatim>\<open>table[key] || d\<close> on numbers: a missing entry and an entry of 0 both give \<open>d\<close>.
  \<^verbatim>\<open>table[symbol]?.[platform]\<close> is the entry of the row of the symbol, if both exist.
  (Keys that name a property of \<^verbatim>\<open>Object.prototype\<close> are not considered.)
\<close>

definition or_default :: "real option \<Rightarrow> real \<Rightarrow> real" where
  "or_default entry d = (case entry of None \<Rightarrow> d | Some v \<Rightarrow> if v = 0 then d else v)"

definition lookup2 :: "(string \<times> (string \<times> 'a) list) list \<Rightarrow> string \<Rightarrow> string \<Rightarrow> 'a option" where
  "lookup2 table smb pf = (case map_get table smb of None \<Rightarrow> None | Some row \<Rightarrow> map_get row pf)"

definition getStakingPlatforms :: "string \<Rightarrow> string list" where
  "getStakingPlatforms smb =
     (case map_get
        [(''ETH'', [''Lido'', ''Rocket Pool'', ''Coinbase'', ''Kraken'']),
         (''SOL'', [''Marinade'', ''Jito'', ''Solana Foundation'']),
         (''ADA'', [''Cardano Pool'', ''Binance'', ''Kraken'']),
         (''DOT'', [''Polkadot'', ''Kraken'', ''Binance'']),
         (''AVAX'', [''Avalanche'', ''Binance'', ''Kraken'']),
         (''MATIC'', [''Polygon'', ''Binance'', ''Kraken'']),
         (''ATOM'', [''Cosmos Hub'', ''Binance'', ''Kraken'']),
         (''NEAR'', [''NEAR Protocol'', ''Binance'', ''Kraken''])] smb of
        Some platforms \<Rightarrow> platforms
      | None \<Rightarrow> [''Binance'', ''Kraken'', ''Coinbase''])"

definition getBaseAPY :: "string \<Rightarrow> real" where
  "getBaseAPY smb =
     or_default (map_get
       [(''ETH'', rnd 4.5), (''SOL'', rnd 7.2), (''ADA'', rnd 5.8), (''DOT'', rnd 12.5),
        (''AVAX'', rnd 8.9), (''MATIC'', rnd 6.2), (''ATOM'', rnd 19.5), (''NEAR'', rnd 11.2)]
       smb) 5"

definition getPlatformMultiplier :: "string \<Rightarrow> real" where
  "getPlatformMultiplier pf =
     or_default (map_get
       [(''Lido'', 1), (''Rocket Pool'', rnd 0.95), (''Coinbase'', rnd 0.85),
        (''Kraken'', rnd 0.90), (''Binance'', rnd 0.88), (''Marinade'', rnd 1.05),
        (''Jito'', rnd 1.1), (''Solana Foundation'', 1), (''Cardano Pool'', 1),
        (''Polkadot'', 1), (''Avalanche'', 1), (''Polygon'', 1), (''Cosmos Hub'', 1),
        (''NEAR Protocol'', 1)]
       pf) (rnd 0.9)"

definition getRiskAdjustment :: "string \<Rightarrow> string \<Rightarrow> jsnum" where
  "getRiskAdjustment smb pf =
     (let platformRisk =
            or_default (map_get
              [(''Lido'', rnd 0.95), (''Rocket Pool'', rnd 0.98), (''Coinbase'', rnd 0.92),
               (''Kraken'', rnd 0.94), (''Binance'', rnd 0.90), (''Marinade'', rnd 1.02),
               (''Jito'', rnd 1.05), (''Solana Foundation'', rnd 0.98)]
              pf) (rnd 0.95);
          assetRisk =
            or_default (map_get
              [(''ETH'', rnd 0.95), (''SOL'', rnd 1.05), (''ADA'', 1), (''DOT'', rnd 1.1),
               (''AVAX'', rnd 1.08), (''MATIC'', rnd 1.02), (''ATOM'', rnd 1.15),
               (''NEAR'', rnd 1.1)]
              smb) 1
      in dmul (dmul (Num 1) (Num platformRisk)) (Num assetRisk))"

definition getMinStake :: "string \<Rightarrow> string \<Rightarrow> real" where
  "getMinStake smb pf =
     or_default (lookup2
       [(''ETH'', [(''Lido'', rnd 0.1), (''Rocket Pool'', rnd 0.1), (''Coinbase'', rnd 0.1),
                   (''Kraken'', rnd 0.1)]),
        (''SOL'', [(''Marinade'', 1), (''Jito'', 1), (''Solana Foundation'', 1)]),
        (''ADA'', [(''Cardano Pool'', 10), (''Binance'', 10), (''Kraken'', 10)]),
        (''DOT'', [(''Polkadot'', 1), (''Kraken'', 1), (''Binance'', 1)])]
       smb pf) 1"

definition getMaxStake :: "string \<Rightarrow> string \<Rightarrow> real" where
  "getMaxStake smb pf =
     or_default (lookup2
       [(''ETH'', [(''Lido'', 1000), (''Rocket Pool'', 1000), (''Coinbase'', 10000),
                   (''Kraken'', 10000)]),
        (''SOL'', [(''Marinade'', 10000), (''Jito'', 10000), (''Solana Foundation'', 10000)])]
       smb pf) 10000"

definition getLockPeriod :: "string \<Rightarrow> string \<Rightarrow> real" where
  "getLockPeriod smb pf =
     or_default (lookup2
       [(''ETH'', [(''Lido'', 0), (''Rocket Pool'', 0), (''Coinbase'', 0), (''Kraken'', 0)]),
        (''SOL'', [(''Marinade'', 0), (''Jito'', 0), (''Solana Foundation'', 0)]),
        (''ADA'', [(''Cardano Pool'', 0), (''Binance'', 0), (''Kraken'', 0)]),
        (''DOT'', [(''Polkadot'', 28), (''Kraken'', 0), (''Binance'', 0)]),
        (''AVAX'', [(''Avalanche'', 0), (''Binance'', 0), (''Kraken'', 0)]),
        (''MATIC'', [(''Polygon'', 0), (''Binance'', 0), (''Kraken'', 0)]),
        (''ATOM'', [(''Cosmos Hub'', 21), (''Binance'', 0), (''Kraken'', 0)]),
        (''NEAR'', [(''NEAR Protocol'', 0), (''Binance'', 0), (''Kraken'', 0)])]
       smb pf) 0"

definition getRiskLevel :: "string \<Rightarrow> string \<Rightarrow> risk_level" where
  "getRiskLevel smb pf =
     (case lookup2
        [(''ETH'', [(''Lido'', LOW), (''Rocket Pool'', LOW), (''Coinbase'', LOW), (''Kraken'', LOW)]),
         (''SOL'', [(''Marinade'', MEDIUM), (''Jito'', MEDIUM), (''Solana Foundation'', LOW)]),
         (''ADA'', [(''Cardano Pool'', LOW), (''Binance'', LOW), (''Kraken'', LOW)]),
         (''DOT'', [(''Polkadot'', MEDIUM), (''Kraken'', LOW), (''Binance'', LOW)]),
         (''AVAX'', [(''Avalanche'', MEDIUM), (''Binance'', LOW), (''Kraken'', LOW)]),
         (''MATIC'', [(''Polygon'', MEDIUM), (''Binance'', LOW), (''Kraken'', LOW)]),
         (''ATOM'', [(''Cosmos Hub'', MEDIUM), (''Binance'', LOW), (''Kraken'', LOW)]),
         (''NEAR'', [(''NEAR Protocol'', MEDIUM), (''Binance'', LOW), (''Kraken'', LOW)])]
        smb pf of
        Some level \<Rightarrow> level
      | None \<Rightarrow> MEDIUM)"

definition getLiquidity :: "string \<Rightarrow> string \<Rightarrow> liquidity_level" where
  "getLiquidity smb pf =
     (case lookup2
        [(''ETH'', [(''Lido'', LIQUIDITY_HIGH), (''Rocket Pool'', LIQUIDITY_HIGH),
                    (''Coinbase'', LIQUIDITY_HIGH), (''Kraken'', LIQUIDITY_HIGH)]),
         (''SOL'', [(''Marinade'', LIQUIDITY_HIGH), (''Jito'', LIQUIDITY_HIGH),
                    (''Solana Foundation'', LIQUIDITY_HIGH)]),
         (''ADA'', [(''Cardano Pool'', LIQUIDITY_HIGH), (''Binance'', LIQUIDITY_HIGH),
                    (''Kraken'', LIQUIDITY_HIGH)]),
         (''DOT'', [(''Polkadot'', LIQUIDITY_MEDIUM), (''Kraken'', LIQUIDITY_HIGH),
                    (''Binance'', LIQUIDITY_HIGH)]),
         (''AVAX'', [(''Avalanche'', LIQUIDITY_MEDIUM), (''Binance'', LIQUIDITY_HIGH),
                     (''Kraken'', LIQUIDITY_HIGH)]),
         (''MATIC'', [(''Polygon'', LIQUIDITY_MEDIUM), (''Binance'', LIQUIDITY_HIGH),
                      (''Kraken'', LIQUIDITY_HIGH)]),
         (''ATOM'', [(''Cosmos Hub'', LIQUIDITY_MEDIUM), (''Binance'', LIQUIDITY_HIGH),
                     (''Kraken'', LIQUIDITY_HIGH)]),
         (''NEAR'', [(''NEAR Protocol'', LIQUIDITY_MEDIUM), (''Binance'', LIQUIDITY_HIGH),
                     (''Kraken'', LIQUIDITY_HIGH)])]
        smb pf of
        Some level \<Rightarrow> level
      | None \<Rightarrow> LIQUIDITY_MEDIUM)"

definition getCompoundFrequency :: "string \<Rightarrow> compound_frequency" where
  "getCompoundFrequency pf =
     (case map_get
        [(''Lido'', COMPOUND_DAILY), (''Rocket Pool'', COMPOUND_DAILY),
         (''Coinbase'', COMPOUND_WEEKLY), (''Kraken'', COMPOUND_WEEKLY),
         (''Binance'', COMPOUND_DAILY), (''Marinade'', COMPOUND_DAILY),
         (''Jito'', COMPOUND_DAILY), (''Solana Foundation'', COMPOUND_DAILY),
         (''Cardano Pool'', COMPOUND_DAILY), (''Polkadot'', COMPOUND_WEEKLY),
         (''Avalanche'', COMPOUND_DAILY), (''Polygon'', COMPOUND_DAILY),
         (''Cosmos Hub'', COMPOUND_DAILY), (''NEAR Protocol'', COMPOUND_DAILY)] pf of
        Some f \<Rightarrow> f
      | None \<Rightarrow> COMPOUND_WEEKLY)"

definition getFees :: "string \<Rightarrow> real" where
  "getFees pf =
     or_default (map_get
       [(''Lido'', 10), (''Rocket Pool'', 15), (''Coinbase'', 25), (''Kraken'', 20),
        (''Binance'', 5), (''Marinade'', 6), (''Jito'', 8), (''Solana Foundation'', 0),
        (''Cardano Pool'', 0), (''Polkadot'', 0), (''Avalanche'', 0), (''Polygon'', 0),
        (''Cosmos Hub'', 0), (''NEAR Protocol'', 0)]
       pf) 10"

definition generateStakingOpportunity :: "real \<Rightarrow> MarketData \<Rightarrow> string \<Rightarrow> StakingOpportunity" where
  "generateStakingOpportunity now asset pf =
     (let baseAPY = getBaseAPY (symbol asset);
          platformMultiplier = getPlatformMultiplier pf;
          riskAdjustment = getRiskAdjustment (symbol asset) pf;
          computed = dmul (dmul (Num baseAPY) (Num platformMultiplier)) riskAdjustment
      in \<lparr> so_symbol = symbol asset,
           platform = pf,
           apy = jmax (Num 0.5) (jmin (Num 50) computed),
           minStake = getMinStake (symbol asset) pf,
           maxStake = Some (getMaxStake (symbol asset) pf),
           lockPeriod = getLockPeriod (symbol asset) pf,
           so_riskLevel = getRiskLevel (symbol asset) pf,
           liquidity = getLiquidity (symbol asset) pf,
           compoundFrequency = getCompoundFrequency pf,
           fees = getFees pf,
           lastUpdated = now \<rparr>)"

text \<open>\<^verbatim>\<open>updateStakingOpportunities\<close>: at most 10 opportunities are kept per symbol.\<close>

definition updateStakingOpportunities ::
  "real \<Rightarrow> SmartStakingBot \<Rightarrow> MarketData list \<Rightarrow> SmartStakingBot" where
  "updateStakingOpportunities now st marketData =
     st\<lparr> opportunities :=
       foldl (\<lambda>m asset.
                map_set m (symbol asset)
                  (take 10 (map (generateStakingOpportunity now asset)
                              (getStakingPlatforms (symbol asset)))))
         (opportunities st) marketData \<rparr>"

subsection \<open>Scores and the greedy allocation\<close>

definition calculateStakingScore :: "StakingOpportunity \<Rightarrow> MarketData list \<Rightarrow> jsnum" where
  "calculateStakingScore opportunity marketData =
     (let s0 = dmul (apy opportunity) (Num 10);
          s1 = (case so_riskLevel opportunity of
                  LOW \<Rightarrow> dmul s0 (lit 1.2)
                | MEDIUM \<Rightarrow> dmul s0 (Num 1)
                | HIGH \<Rightarrow> dmul s0 (lit 0.7));
          s2 = (case liquidity opportunity of
                  LIQUIDITY_HIGH \<Rightarrow> dmul s1 (lit 1.1)
                | LIQUIDITY_MEDIUM \<Rightarrow> dmul s1 (Num 1)
                | LIQUIDITY_LOW \<Rightarrow> dmul s1 (lit 0.8));
          s3 = dmul s2 (dsub (Num 1) (ddiv (Num (fees opportunity)) (Num 100)));
          s4 = (if lockPeriod opportunity > 0
                then dmul s3 (jmax (Num 0.5)
                                (dsub (Num 1) (ddiv (Num (lockPeriod opportunity)) (Num 365))))
                else s3);
          s5 = (case compoundFrequency opportunity of
                  COMPOUND_DAILY \<Rightarrow> dmul s4 (lit 1.1)
                | COMPOUND_WEEKLY \<Rightarrow> dmul s4 (Num 1)
                | COMPOUND_MONTHLY \<Rightarrow> dmul s4 (lit 0.9));
          s6 = (case find (\<lambda>d. symbol d = so_symbol opportunity) marketData of
                  None \<Rightarrow> s5
                | Some assetData \<Rightarrow>
                    (if change24h assetData > - 2 \<and> change24h assetData < 5
                     then dmul s5 (lit 1.1)
                     else if change24h assetData < - 10 then dmul s5 (lit 0.8)
                     else s5))
      in jmax (Num 0) s6)"

text \<open>\<^verbatim>\<open>opp.maxStake || remainingCapital\<close>: an absent maximum and a maximum of 0 are both falsy.\<close>

definition maxStake_or :: "StakingOpportunity \<Rightarrow> jsnum \<Rightarrow> jsnum" where
  "maxStake_or opp remainingCapital =
     (case maxStake opp of
        None \<Rightarrow> remainingCapital
      | Some m \<Rightarrow> if m = 0 then remainingCapital else Num m)"

text \<open>
  The greedy loop over the scored opportunities, carrying \<^verbatim>\<open>remainingCapital\<close>, which
  \<^verbatim>\<open>remainingCapital -= maxAllocation\<close> rounds at every step.
\<close>

fun allocate ::
  "real \<Rightarrow> jsnum \<Rightarrow> (StakingOpportunity \<times> jsnum) list \<Rightarrow> StakingAllocation list" where
  "allocate totalCapital remainingCapital [] = []"
| "allocate totalCapital remainingCapital ((opp, scr) # rest) =
     (if jleq remainingCapital (Num 0) then allocate totalCapital remainingCapital rest
      else
        (let maxAllocation =
               jmin remainingCapital
                 (jmin (maxStake_or opp remainingCapital) (dmul (Num totalCapital) (lit 0.3)))
         in if jleq (Num (minStake opp)) maxAllocation
            then \<lparr> al_symbol = so_symbol opp, al_platform = platform opp,
                   amount = maxAllocation, al_apy = apy opp,
                   priority = jround scr \<rparr>
                 # allocate totalCapital (dsub remainingCapital maxAllocation) rest
            else allocate totalCapital remainingCapital rest))"

definition all_opportunities :: "SmartStakingBot \<Rightarrow> StakingOpportunity list" where
  "all_opportunities st = concat (map snd (opportunities st))"

text \<open>
  The value of a finite score. \<^verbatim>\<open>sort((a, b) => b.score - a.score)\<close> is a stable sort by
  falling score; the scores of the opportunities that \<^verbatim>\<open>generateStakingOpportunity\<close>
  builds are finite.
\<close>

fun num_of :: "jsnum \<Rightarrow> real" where
  "num_of (Num a) = a"
| "num_of PInf = 0"
| "num_of NInf = 0"
| "num_of NaN = 0"

definition calculateOptimalAllocations ::
  "BotConfig \<Rightarrow> SmartStakingBot \<Rightarrow> MarketData list \<Rightarrow> StakingAllocation list" where
  "calculateOptimalAllocations cfg st marketData =
     (let totalCapital = allocation cfg;
          currentStaked = dsum (map (\<lambda>(k, pos). Num (stakedAmount pos)) (staking_positions st));
          availableCapital = dsub (Num totalCapital) currentStaked;
          scoredOpportunities =
            map (\<lambda>opp. (opp, calculateStakingScore opp marketData))
              (filter (\<lambda>opp. so_symbol opp \<in> set (enabledAssets cfg)) (all_opportunities st));
          sorted = sort_key (\<lambda>(opp, scr). - num_of scr) scoredOpportunities
      in allocate totalCapital availableCapital sorted)"

section \<open>Risk manager: metrics and validation\<close>

text \<open>
  The arithmetic of this section is in doubles. \<^verbatim>\<open>calculatePortfolioValue\<close>: a position
  whose symbol has no observation contributes \<^verbatim>\<open>position.value\<close>; the \<^verbatim>\<open>Position\<close>
  interface declares no such field, so the read is \<^verbatim>\<open>undefined\<close> and the sum becomes NaN.
\<close>

definition calculatePortfolioValue :: "Position list \<Rightarrow> MarketData list \<Rightarrow> jsnum" where
  "calculatePortfolioValue ps marketData =
     foldl (\<lambda>tot position.
              dadd tot (case find (\<lambda>d. symbol d = pos_symbol position) marketData of
                          Some assetData \<Rightarrow>
                            dmul (Num (pos_quantity position)) (Num (price assetData))
                        | None \<Rightarrow> NaN))
       (Num 0) ps"

definition calculateTotalExposure :: "Position list \<Rightarrow> MarketData list \<Rightarrow> jsnum" where
  "calculateTotalExposure ps marketData = calculatePortfolioValue ps marketData"

text \<open>\<^verbatim>\<open>Math.max(...xs)\<close> of a non-empty array of finite numbers.\<close>

definition maximum :: "real list \<Rightarrow> real" where
  "maximum xs = foldl max (hd xs) (tl xs)"

definition calculateCurrentDrawdown :: "RiskManager \<Rightarrow> jsnum \<Rightarrow> jsnum" where
  "calculateCurrentDrawdown rm current =
     (if length (performanceHistory rm) < 2 then Num 0
      else
        (let peak = maximum (map pp_value (performanceHistory rm))
         in if peak > 0
            then dmul (ddiv (dsub (Num peak) current) (Num peak)) (Num 100)
            else Num 0))"

text \<open>The placeholder 0.3 is the double of that literal.\<close>

definition calculatePortfolioCorrelation :: "Position list \<Rightarrow> real" where
  "calculatePortfolioCorrelation ps = (if length ps < 2 then 0 else rnd 0.3)"

text \<open>\<^verbatim>\<open>Math.pow(x, 2)\<close> is taken as the rounded product \<^verbatim>\<open>x * x\<close>.\<close>

definition calculatePortfolioVolatility :: "Position list \<Rightarrow> MarketData list \<Rightarrow> jsnum" where
  "calculatePortfolioVolatility ps marketData =
     (if length ps = 0 then Num 0
      else
        (let returns =
               map (\<lambda>(a, b).
                      (let portfolioValue1 = calculatePortfolioValue ps [a];
                           portfolioValue2 = calculatePortfolioValue ps [b]
                       in ddiv (dsub portfolioValue2 portfolioValue1) portfolioValue1))
                 (steps marketData);
             meanReturn = ddiv (dsum returns) (Num (real (length returns)));
             variance =
               ddiv (dsum (map (\<lambda>ret. dmul (dsub ret meanReturn) (dsub ret meanReturn)) returns))
                 (Num (real (length returns)))
         in dmul (dsqrt variance) (Num 100)))"

text \<open>
  The fields of \<^verbatim>\<open>RiskMetrics\<close> that \<^verbatim>\<open>validateSignal\<close> and the scoring of a backtest
  read.
\<close>

record RiskMetrics =
  portfolioValue :: jsnum
  totalExposure :: jsnum
  currentDrawdown :: jsnum
  correlation :: real
  volatility :: jsnum

definition calculateRiskMetrics ::
  "RiskManager \<Rightarrow> Position list \<Rightarrow> MarketData list \<Rightarrow> RiskMetrics" where
  "calculateRiskMetrics rm ps marketData =
     \<lparr> portfolioValue = calculatePortfolioValue ps marketData,
       totalExposure = calculateTotalExposure ps marketData,
       currentDrawdown = calculateCurrentDrawdown rm (calculatePortfolioValue ps marketData),
       correlation = calculatePortfolioCorrelation ps,
       volatility = calculatePortfolioVolatility ps marketData \<rparr>"

datatype market_trend = BULL | BEAR | TREND_SIDEWAYS

datatype market_volatility =
  VOLATILITY_LOW | VOLATILITY_MEDIUM | VOLATILITY_HIGH | VOLATILITY_EXTREME

datatype market_volume = VOLUME_LOW | VOLUME_NORMAL | VOLUME_HIGH

datatype market_sentiment = FEAR | SENTIMENT_NEUTRAL | GREED

text \<open>
  The classifications of \<^verbatim>\<open>MarketCondition\<close>. Its \<^verbatim>\<open>strength\<close> and \<^verbatim>\<open>confidence\<close>, which
  the validation does not read, are left out. A threshold written as a decimal literal
  is the double of that literal.
\<close>

record MarketCondition =
  mc_trend :: market_trend
  mc_volatility :: market_volatility
  mc_volume :: market_volume
  mc_sentiment :: market_sentiment

definition analyzeTrend :: "MarketData list \<Rightarrow> market_trend" where
  "analyzeTrend marketData =
     (if length marketData < 10 then TREND_SIDEWAYS
      else
        (let prices = map price marketData;
             change = ddiv (dsub (Num (last prices)) (Num (hd prices))) (Num (hd prices))
         in if jgt change (rnd 0.05) then BULL
            else if jlt change (- rnd 0.05) then BEAR
            else TREND_SIDEWAYS))"

definition analyzeVolatility :: "MarketData list \<Rightarrow> market_volatility" where
  "analyzeVolatility marketData =
     (if length marketData < 10 then VOLATILITY_MEDIUM
      else
        (let returns =
               map (\<lambda>(a, b). ddiv (dsub (Num (price b)) (Num (price a))) (Num (price a)))
                 (steps marketData);
             vol = dsqrt (ddiv (foldl (\<lambda>acc ret. dadd acc (dmul ret ret)) (Num 0) returns)
                            (Num (real (length returns))))
         in if jlt vol (rnd 0.02) then VOLATILITY_LOW
            else if jlt vol (rnd 0.05) then VOLATILITY_MEDIUM
            else if jlt vol (rnd 0.1) then VOLATILITY_HIGH
            else VOLATILITY_EXTREME))"

definition analyzeVolume :: "MarketData list \<Rightarrow> market_volume" where
  "analyzeVolume marketData =
     (if length marketData < 10 then VOLUME_NORMAL
      else
        (let volumes = map volume marketData;
             avgVolume = ddiv (dsum (map Num volumes)) (Num (real (length volumes)));
             latestVolume = last volumes;
             volumeRatio = ddiv (Num latestVolume) avgVolume
         in if jlt volumeRatio (rnd 0.7) then VOLUME_LOW
            else if jgt volumeRatio 1.5 then VOLUME_HIGH
            else VOLUME_NORMAL))"

definition analyzeSentiment :: "MarketData list \<Rightarrow> market_sentiment" where
  "analyzeSentiment marketData =
     (if length marketData < 10 then SENTIMENT_NEUTRAL
      else
        (let changes = map change24h marketData;
             avgChange = ddiv (dsum (map Num changes)) (Num (real (length changes)));
             fearGreedScore = dmul (dadd avgChange (Num 10)) (Num 5)
         in if jlt fearGreedScore 30 then FEAR
            else if jgt fearGreedScore 70 then GREED
            else SENTIMENT_NEUTRAL))"

definition updateMarketHistory :: "RiskManager \<Rightarrow> MarketData list \<Rightarrow> RiskManager" where
  "updateMarketHistory rm marketData =
     (let h = marketHistory rm @ marketData
      in rm\<lparr> marketHistory := (if length h > 1000 then drop (length h - 1000) h else h) \<rparr>)"

definition analyzeMarketConditions ::
  "RiskManager \<Rightarrow> MarketData list \<Rightarrow> MarketCondition \<times> RiskManager" where
  "analyzeMarketConditions rm marketData =
     (\<lparr> mc_trend = analyzeTrend marketData,
        mc_volatility = analyzeVolatility marketData,
        mc_volume = analyzeVolume marketData,
        mc_sentiment = analyzeSentiment marketData \<rparr>,
      updateMarketHistory rm marketData)"

text \<open>Which check of \<^verbatim>\<open>validateSignal\<close> produced the result (its \<^verbatim>\<open>reason\<close> text).\<close>

datatype verdict =
    PositionSizeReduced
  | ExposureExceeded
  | DrawdownExceeded
  | VolatilityExceeded
  | CorrelationExceeded
  | BuyBlockedExtremeVolatility
  | InsufficientLiquidity
  | ApprovedByRiskManagement

record Validation =
  approved :: bool
  adjustedQuantity :: "jsnum option"
  reason :: verdict
  val_riskLevel :: risk_level

definition calculateSignalRiskLevel :: "TradingSignal \<Rightarrow> MarketCondition \<Rightarrow> risk_level" where
  "calculateSignalRiskLevel signal mc =
     (let r1 = (if confidence signal < 60 then 2
                else if confidence signal < 80 then 1 else (0::nat));
          r2 = (case mc_volatility mc of
                  VOLATILITY_EXTREME \<Rightarrow> r1 + 3
                | VOLATILITY_HIGH \<Rightarrow> r1 + 2
                | VOLATILITY_MEDIUM \<Rightarrow> r1 + 1
                | VOLATILITY_LOW \<Rightarrow> r1);
          r3 = (case mc_sentiment mc of
                  FEAR \<Rightarrow> r2 + 2 | GREED \<Rightarrow> r2 + 1 | SENTIMENT_NEUTRAL \<Rightarrow> r2);
          riskScore = (if mc_trend mc = BEAR then r3 + 2 else r3)
      in if riskScore \<ge> 4 then HIGH else if riskScore \<ge> 2 then MEDIUM else LOW)"

text \<open>
  \<^verbatim>\<open>getMarketConditionAdjustment\<close> withholds approval in one case only, which is all
  that \<^verbatim>\<open>validateSignal\<close> reads from it.
\<close>

definition marketCondition_blocks :: "MarketCondition \<Rightarrow> TradingSignal \<Rightarrow> bool" where
  "marketCondition_blocks mc signal =
     (mc_volatility mc = VOLATILITY_EXTREME \<and> sig_action signal = BUY)"

text \<open>\<^verbatim>\<open>(positionValue / riskMetrics.portfolioValue) * 100\<close>\<close>

definition positionSizePercent :: "TradingSignal \<Rightarrow> Position list \<Rightarrow> MarketData list \<Rightarrow> jsnum" where
  "positionSizePercent signal ps marketData =
     dmul (ddiv (dmul (Num (sig_quantity signal)) (Num (sig_price signal)))
             (calculatePortfolioValue ps marketData))
       (Num 100)"

text \<open>The checks of \<^verbatim>\<open>validateSignal\<close> that follow the position-size check.\<close>

definition later_checks ::
  "RiskManager \<Rightarrow> TradingSignal \<Rightarrow> RiskMetrics \<Rightarrow> MarketCondition \<Rightarrow> MarketData list
     \<Rightarrow> Validation" where
  "later_checks rm signal riskMetrics mc marketData =
     (let positionValue = dmul (Num (sig_quantity signal)) (Num (sig_price signal));
          newTotalExposure = dadd (totalExposure riskMetrics) positionValue;
          exposurePercent = dmul (ddiv newTotalExposure (portfolioValue riskMetrics)) (Num 100)
      in if jgt exposurePercent (maxTotalExposure (riskLimits rm))
         then \<lparr> approved = False, adjustedQuantity = None, reason = ExposureExceeded,
                val_riskLevel = HIGH \<rparr>
         else if jgt (currentDrawdown riskMetrics) (maxDrawdown (riskLimits rm))
         then \<lparr> approved = False, adjustedQuantity = None, reason = DrawdownExceeded,
                val_riskLevel = HIGH \<rparr>
         else if jgt (volatility riskMetrics) (maxVolatility (riskLimits rm))
         then \<lparr> approved = False, adjustedQuantity = None, reason = VolatilityExceeded,
                val_riskLevel = HIGH \<rparr>
         else if correlation riskMetrics > maxCorrelation (riskLimits rm)
         then \<lparr> approved = False, adjustedQuantity = None, reason = CorrelationExceeded,
                val_riskLevel = MEDIUM \<rparr>
         else if marketCondition_blocks mc signal
         then \<lparr> approved = False, adjustedQuantity = None, reason = BuyBlockedExtremeVolatility,
                val_riskLevel = HIGH \<rparr>
         else if (case find (\<lambda>d. symbol d = sig_symbol signal) marketData of
                    None \<Rightarrow> False
                  | Some assetData \<Rightarrow> volume assetData < minLiquidity (riskLimits rm))
         then \<lparr> approved = False, adjustedQuantity = None, reason = InsufficientLiquidity,
                val_riskLevel = HIGH \<rparr>
         else \<lparr> approved = True, adjustedQuantity = None, reason = ApprovedByRiskManagement,
                val_riskLevel = calculateSignalRiskLevel signal mc \<rparr>)"

text \<open>
  \<^verbatim>\<open>validateSignal\<close>. The adjusted quantity is
  \<^verbatim>\<open>(maxPositionSize / 100) * portfolioValue / signal.price\<close>, from the left.
\<close>

definition validateSignal ::
  "RiskManager \<Rightarrow> TradingSignal \<Rightarrow> Position list \<Rightarrow> MarketData list
     \<Rightarrow> Validation \<times> RiskManager" where
  "validateSignal rm signal ps marketData =
     (let riskMetrics = calculateRiskMetrics rm ps marketData;
          (marketCondition, rm1) = analyzeMarketConditions rm marketData
      in (if jgt (positionSizePercent signal ps marketData) (maxPositionSize (riskLimits rm))
          then \<lparr> approved = True,
                 adjustedQuantity =
                   Some (ddiv (dmul (ddiv (Num (maxPositionSize (riskLimits rm))) (Num 100))
                                 (portfolioValue riskMetrics))
                           (Num (sig_price signal))),
                 reason = PositionSizeReduced,
                 val_riskLevel = HIGH \<rparr>
          else later_checks rm signal riskMetrics marketCondition marketData,
          rm1))"

text \<open>
  \<^verbatim>\<open>calculateCVaR\<close>: the mean of the returns below the index of the percentile, a quotient
  by the number of those returns.
\<close>

definition history_returns :: "PerformancePoint list \<Rightarrow> real list" where
  "history_returns h = map (\<lambda>(a, b). (pp_value b - pp_value a) / pp_value a) (steps h)"

definition calculateCVaR :: "RiskManager \<Rightarrow> real \<Rightarrow> jsnum" where
  "calculateCVaR rm conf =
     (if length (performanceHistory rm) < 10 then Num 0
      else
        (let returns = sort (history_returns (performanceHistory rm));
             varIndex = nat \<lfloor>(1 - conf) * real (length returns)\<rfloor>;
             tailReturns = take varIndex returns
         in jmul (jdiv (sum_list tailReturns) (real (length tailReturns))) (Num 100)))"

section \<open>Backtest harness: scoring a run\<close>

text \<open>
  The fields of \<^verbatim>\<open>PerformanceMetrics\<close> that the evaluation reads; the risk metrics are
  the record above, of which it reads the volatility and the correlation.
\<close>

record PerformanceMetrics =
  totalReturn :: real
  pm_maxDrawdown :: real
  sharpeRatio :: real
  winRate :: real
  profitFactor :: real

record Evaluation =
  passed :: bool
  score :: int
  issues :: "string list"
  recommendations :: "string list"

text \<open>The running \<^verbatim>\<open>score\<close>, \<^verbatim>\<open>issues\<close> and \<^verbatim>\<open>recommendations\<close> of \<^verbatim>\<open>evaluateTestResult\<close>.\<close>

type_synonym tally = "int \<times> string list \<times> string list"

definition award :: "int \<Rightarrow> tally \<Rightarrow> tally" where
  "award n t = (case t of (s, is, rs) \<Rightarrow> (s + n, is, rs))"

definition flag :: "string \<Rightarrow> string \<Rightarrow> tally \<Rightarrow> tally" where
  "flag issue rec t = (case t of (s, is, rs) \<Rightarrow> (s, is @ [issue], rs @ [rec]))"

definition scenario_check :: "string \<Rightarrow> PerformanceMetrics \<Rightarrow> tally \<Rightarrow> tally" where
  "scenario_check name p t =
     (if name = ''Strong Bull Market'' then
        (if totalReturn p < 10
         then flag ''Low returns in bull market''
                ''Increase position sizes or reduce stop-losses in bull markets'' t
         else award 20 t)
      else if name = ''Strong Bear Market'' then
        (if totalReturn p < -5
         then flag ''Excessive losses in bear market''
                ''Improve bear market protection and stop-loss mechanisms'' t
         else award 20 t)
      else if name = ''Crash Scenario'' then
        (if pm_maxDrawdown p > 20
         then flag ''Excessive drawdown during crash''
                ''Implement better emergency stop-loss mechanisms'' t
         else award 20 t)
      else t)"

definition sharpe_check :: "PerformanceMetrics \<Rightarrow> tally \<Rightarrow> tally" where
  "sharpe_check p t =
     (if sharpeRatio p > 1.5 then award 15 t
      else if sharpeRatio p < 0.5
      then flag ''Low Sharpe ratio indicates poor risk-adjusted returns''
             ''Optimize risk management and position sizing'' t
      else t)"

definition winRate_check :: "PerformanceMetrics \<Rightarrow> tally \<Rightarrow> tally" where
  "winRate_check p t =
     (if winRate p > 60 then award 15 t
      else if winRate p < 40
      then flag ''Low win rate'' ''Improve signal quality and entry timing'' t
      else t)"

definition drawdown_check :: "PerformanceMetrics \<Rightarrow> tally \<Rightarrow> tally" where
  "drawdown_check p t =
     (if pm_maxDrawdown p < 10 then award 15 t
      else if pm_maxDrawdown p > 25
      then flag ''High maximum drawdown''
             ''Implement better risk management and position sizing'' t
      else t)"

definition profitFactor_check :: "PerformanceMetrics \<Rightarrow> tally \<Rightarrow> tally" where
  "profitFactor_check p t =
     (if profitFactor p > 1.5 then award 15 t
      else if profitFactor p < 1.0
      then flag ''Profit factor below 1.0 indicates losing strategy''
             ''Review and improve trading logic'' t
      else t)"

definition volatility_check :: "RiskMetrics \<Rightarrow> tally \<Rightarrow> tally" where
  "volatility_check r t =
     (if jlt (volatility r) 15 then award 10 t
      else if jgt (volatility r) 30
      then flag ''High portfolio volatility''
             ''Reduce position sizes and improve diversification'' t
      else t)"

definition correlation_check :: "RiskMetrics \<Rightarrow> tally \<Rightarrow> tally" where
  "correlation_check r t =
     (if correlation r < 0.5 then award 10 t
      else if correlation r > 0.8
      then flag ''High portfolio correlation''
             ''Improve diversification across uncorrelated assets'' t
      else t)"

definition final_tally :: "string \<Rightarrow> PerformanceMetrics \<Rightarrow> RiskMetrics \<Rightarrow> tally" where
  "final_tally name p r =
     correlation_check r (volatility_check r (profitFactor_check p (drawdown_check p
       (winRate_check p (sharpe_check p (scenario_check name p (0, [], [])))))))"

definition evaluateTestResult ::
  "string \<Rightarrow> string \<Rightarrow> PerformanceMetrics \<Rightarrow> RiskMetrics \<Rightarrow> Evaluation" where
  "evaluateTestResult algorithm scenario_name performance riskMetrics =
     (case final_tally scenario_name performance riskMetrics of
        (s, is, rs) \<Rightarrow>
          \<lparr> passed = (s \<ge> 60 \<and> length is \<le> 2),
            score = min 100 s,
            issues = is,
            recommendations = rs \<rparr>)"

section \<open>Inputs of the harness and of the evaluations below\<close>

text \<open>The configuration and the schedule that \<^verbatim>\<open>createBotInstance\<close> gives every evaluator.\<close>

definition createBotInstance_config :: BotConfig where
  "createBotInstance_config =
     \<lparr> allocation = 10000, stopLoss = 5, takeProfit = Some 15, maxPositions = 5,
       riskLevel = MODERATE, enabledAssets = [''BTC'', ''ETH'', ''SOL'', ''ADA'', ''DOT''] \<rparr>"

definition createBotInstance_schedule :: "real \<Rightarrow> DCASchedule" where
  "createBotInstance_schedule now =
     \<lparr> frequency = DAILY, interval = 24, dca_amount = 100, startDate = now,
       endDate = None, maxPurchases = None \<rparr>"

text \<open>The data of the harness's own "Zero Volume Test".\<close>

definition generateZeroVolumeData :: "real \<Rightarrow> MarketData list" where
  "generateZeroVolumeData now =
     [\<lparr> symbol = ''BTC'', price = 100, volume = 0, timestamp = now, change24h = 0,
        change1h = 0, high24h = 100, low24h = 100 \<rparr>]"

text \<open>Ten hourly observations of one asset whose price rises by 1 each hour.\<close>

definition observation :: "real \<Rightarrow> real \<Rightarrow> MarketData" where
  "observation hour p =
     \<lparr> symbol = ''BTC'', price = p, volume = 1000, timestamp = 1700000000000 + hour * 3600000,
       change24h = 1, change1h = 1, high24h = p, low24h = p \<rparr>"

definition rising_market :: "MarketData list" where
  "rising_market =
     [observation 0 100, observation 1 101, observation 2 102, observation 3 103,
      observation 4 104, observation 5 105, observation 6 106, observation 7 107,
      observation 8 108, observation 9 109]"

definition single_asset_config :: BotConfig where
  "single_asset_config =
     \<lparr> allocation = 10000, stopLoss = 5, takeProfit = Some 15, maxPositions = 1,
       riskLevel = MODERATE, enabledAssets = [''BTC''] \<rparr>"

text \<open>
  A momentum evaluator that rebalanced at time 1700000000000, then bought 20 units at 100
  and sold 10 of them at 90: it holds 10 units at a loss of 10 percent.
\<close>

definition losing_position_state :: MomentumTradingBot where
  "losing_position_state =
     momentum_updatePosition 1700000002000
       (momentum_updatePosition 1700000001000
          (snd (momentum_analyzeMarket createBotInstance_config 1700000000000
             new_MomentumTradingBot (generateZeroVolumeData 1700000000000)))
          ''BTC'' BUY 20 100)
       ''BTC'' SELL 10 90"

text \<open>
  Twenty observations of BTC at the constant price 0.1, an hour apart: high, low and
  price are the double of that literal.
\<close>

definition flat_observation :: "nat \<Rightarrow> MarketData" where
  "flat_observation i =
     \<lparr> symbol = ''BTC'', price = rnd 0.1, volume = 1000,
       timestamp = 1700000000000 + real i * 3600000, change24h = 0, change1h = 0,
       high24h = rnd 0.1, low24h = rnd 0.1 \<rparr>"

definition flat_market :: "MarketData list" where
  "flat_market = map flat_observation [0..<20]"

text \<open>
  A staking configuration with a capital of 7 for ETH, and one observation of ETH.
\<close>

definition small_staking_config :: BotConfig where
  "small_staking_config =
     \<lparr> allocation = 7, stopLoss = 5, takeProfit = Some 15, maxPositions = 5,
       riskLevel = MODERATE, enabledAssets = [''ETH''] \<rparr>"

definition eth_market :: "MarketData list" where
  "eth_market =
     [\<lparr> symbol = ''ETH'', price = 2000, volume = 1000000, timestamp = 1700000000000,
        change24h = 0, change1h = 0, high24h = 2000, low24h = 2000 \<rparr>]"

definition eth_staking_state :: SmartStakingBot where
  "eth_staking_state = updateStakingOpportunities 1700000000000 new_SmartStakingBot eth_market"

text \<open>
  A risk manager with a position-size limit of 20 percent, without history; one BTC held
  while BTC trades at 3, and a signal to buy 0.2 BTC at 3; and a risk manager whose
  performance history holds ten points.
\<close>

definition example_limits :: RiskLimits where
  "example_limits =
     \<lparr> maxPositionSize = 20, maxTotalExposure = 80, maxDrawdown = 15, maxCorrelation = 0.7,
       maxVolatility = 30, minLiquidity = 100000, maxLeverage = 1, emergencyStopLoss = 25 \<rparr>"

definition example_manager :: RiskManager where
  "example_manager =
     \<lparr> riskLimits = example_limits, marketHistory = [], performanceHistory = [] \<rparr>"

definition small_buy_signal :: TradingSignal where
  "small_buy_signal =
     \<lparr> sig_action = BUY, sig_symbol = ''BTC'', confidence = 75, sig_price = 3,
       sig_quantity = rnd 0.2, sig_timestamp = 1700000000000, sig_riskLevel = MEDIUM \<rparr>"

definition one_btc_held :: "Position list" where
  "one_btc_held =
     [\<lparr> pos_symbol = ''BTC'', pos_quantity = 1, entryPrice = 3, currentPrice = 3,
        pnl = 0, pnlPercentage = 0, pos_timestamp = 1700000000000 \<rparr>]"

definition btc_at_3 :: "MarketData list" where
  "btc_at_3 =
     [\<lparr> symbol = ''BTC'', price = 3, volume = 1000000, timestamp = 1700000000000,
        change24h = 0, change1h = 0, high24h = 3, low24h = 3 \<rparr>]"

definition ten_point_manager :: RiskManager where
  "ten_point_manager =
     example_manager\<lparr> performanceHistory :=
       map (\<lambda>i. \<lparr> pp_timestamp = 1700000000000 + real i * 3600000,
                  pp_value = 10000 + 100 * real i, pp_drawdown = 0 \<rparr>) [0..<10] \<rparr>"

section \<open>Theorems\<close>

subsection \<open>Position ledgers\<close>

lemma map_get_set_same: "map_get (map_set m k v) k = Some v"
  by (induction m) auto

lemma map_delete_set_absent: "map_get m k = None \<Longrightarrow> map_delete (map_set m k v) k = m"
  by (induction m) (auto split: if_splits)

text \<open>
  Claim C7. Starting with no position for a symbol, an executed BUY of quantity \<open>q\<close> at
  price \<open>p\<close> followed by an executed SELL of the same quantity at the same price leaves no
  position for that symbol, in the momentum, the DCA and the channel-index ledger
  (\<open>0 < q\<close>, \<open>0 < p\<close>).
\<close>

theorem buy_then_sell_closes_position:
  assumes "0 < q" and "0 < p"
    and "map_get (positions mb) smb = None"
    and "map_get (dca_positions db) smb = None"
    and "map_get (cci_positions cb) smb = None"
  shows "map_get (positions (momentum_updatePosition t2
            (momentum_updatePosition t1 mb smb BUY q p) smb SELL q p)) smb = None
       \<and> map_get (dca_positions (dca_updatePosition sch t2
            (dca_updatePosition sch t1 db smb BUY q p) smb SELL q p)) smb = None
       \<and> map_get (cci_positions (cci_updatePosition cfg t2
            (cci_updatePosition cfg t1 cb smb BUY q p) smb SELL q p)) smb = None"
proof (intro conjI)
  show "map_get (positions (momentum_updatePosition t2
            (momentum_updatePosition t1 mb smb BUY q p) smb SELL q p)) smb = None"
    using assms(3)
    by (simp add: momentum_updatePosition_def map_get_set_same map_delete_set_absent)
  show "map_get (dca_positions (dca_updatePosition sch t2
            (dca_updatePosition sch t1 db smb BUY q p) smb SELL q p)) smb = None"
    using assms(4)
    by (simp add: dca_updatePosition_def map_get_set_same map_delete_set_absent Let_def)
  show "map_get (cci_positions (cci_updatePosition cfg t2
            (cci_updatePosition cfg t1 cb smb BUY q p) smb SELL q p)) smb = None"
    using assms(5)
    by (simp add: cci_updatePosition_def map_get_set_same map_delete_set_absent)
qed

theorem buy_then_sell_closes_position_witness:
  "(0::real) < 2 \<and> (0::real) < 100
   \<and> map_get (positions new_MomentumTradingBot) ''BTC'' = None
   \<and> map_get (positions (momentum_updatePosition 2000
        (momentum_updatePosition 1000 new_MomentumTradingBot ''BTC'' BUY 2 100)
          ''BTC'' SELL 2 100)) ''BTC'' = None
   \<and> map_get (dca_positions (dca_updatePosition
        \<lparr> frequency = DAILY, interval = 24, dca_amount = 100, startDate = 0,
          endDate = None, maxPurchases = None \<rparr> 2000
        (dca_updatePosition
          \<lparr> frequency = DAILY, interval = 24, dca_amount = 100, startDate = 0,
            endDate = None, maxPurchases = None \<rparr> 1000
          new_DCATradingBot ''BTC'' BUY 2 100) ''BTC'' SELL 2 100)) ''BTC'' = None
   \<and> map_get (cci_positions (cci_updatePosition
        \<lparr> allocation = 10000, stopLoss = 5, takeProfit = Some 15, maxPositions = 5,
          riskLevel = MODERATE, enabledAssets = [''BTC''] \<rparr> 2000
        (cci_updatePosition
          \<lparr> allocation = 10000, stopLoss = 5, takeProfit = Some 15, maxPositions = 5,
            riskLevel = MODERATE, enabledAssets = [''BTC''] \<rparr> 1000
          \<lparr> cci_positions = [], cci_priceHistory = [], lastAnalysis = 0 \<rparr>
          ''BTC'' BUY 2 100) ''BTC'' SELL 2 100)) ''BTC'' = None"
  using buy_then_sell_closes_position
    [of 2 100 new_MomentumTradingBot "''BTC''" new_DCATradingBot
        "\<lparr> cci_positions = [], cci_priceHistory = [], lastAnalysis = 0 \<rparr>"
        2000 1000
        "\<lparr> frequency = DAILY, interval = 24, dca_amount = 100, startDate = 0,
           endDate = None, maxPurchases = None \<rparr>"
        "\<lparr> allocation = 10000, stopLoss = 5, takeProfit = Some 15, maxPositions = 5,
           riskLevel = MODERATE, enabledAssets = [''BTC''] \<rparr>"]
  by (simp add: new_MomentumTradingBot_def new_DCATradingBot_def)

subsection \<open>Momentum evaluator\<close>

lemma rising_market_length: "length rising_market = 10"
  by (simp add: rising_market_def)

lemma rising_market_history:
  "history_of (foldl momentum_record [] rising_market) ''BTC'' = rising_market"
  by (simp add: rising_market_def momentum_record_def history_of_def observation_def)

lemma rising_market_trendStrength: "calculateTrendStrength rising_market = - (3996700 / 33)"
  by (simp add: calculateTrendStrength_def rising_market_def observation_def slice_last_def
      calculateRSquared_def Let_def upt_conv_Cons power2_eq_square)

lemma rising_market_shortTerm: "calculateShortTermMomentum rising_market = 150 / 53"
  by (simp add: calculateShortTermMomentum_def calculateVolumeTrend_def rising_market_def
      observation_def slice_last_def Let_def)

lemma rising_market_volumeWeighted:
  "calculateVolumeWeightedMomentum rising_market = 42675575417249 / 44355229300746"
  by (simp add: calculateVolumeWeightedMomentum_def rising_market_def observation_def
      slice_last_def Let_def steps_def)

lemma rising_market_score:
  "momentum_score single_asset_config rising_market
     = 0.3 * (150 / 53) + 0.2 * (42675575417249 / 44355229300746) - 0.05 * (3996700 / 33)"
  by (simp add: momentum_score_def rising_market_length rising_market_trendStrength
      rising_market_shortTerm rising_market_volumeWeighted calculateMediumTermMomentum_def
      calculateVolatilityAdjustedMomentum_def getMomentumWeights_def single_asset_config_def)

lemma rising_market_symbol: "d \<in> set rising_market \<Longrightarrow> symbol d = ''BTC''"
  by (auto simp: rising_market_def observation_def)

lemma rising_market_scores:
  "calculateMomentumScores single_asset_config
     \<lparr> positions = [], priceHistory = foldl momentum_record [] rising_market, lastRebalance = 0 \<rparr>
     rising_market
   = map (\<lambda>d. \<lparr> sa_symbol = ''BTC'',
                sa_score = 0.3 * (150 / 53) + 0.2 * (42675575417249 / 44355229300746)
                           - 0.05 * (3996700 / 33),
                sa_data = d \<rparr>) rising_market"
  unfolding calculateMomentumScores_def
  by (rule map_cong) (simp_all add: rising_market_symbol rising_market_history rising_market_score)

lemma rising_market_top:
  "take (maxPositions single_asset_config)
     (filter (\<lambda>asset. sa_symbol asset \<in> set (enabledAssets single_asset_config))
        (sort_key (\<lambda>asset. - sa_score asset)
           (calculateMomentumScores single_asset_config
              \<lparr> positions = [], priceHistory = foldl momentum_record [] rising_market,
                lastRebalance = 0 \<rparr>
              rising_market)))
   = [\<lparr> sa_symbol = ''BTC'',
        sa_score = 0.3 * (150 / 53) + 0.2 * (42675575417249 / 44355229300746)
                   - 0.05 * (3996700 / 33),
        sa_data = observation 0 100 \<rparr>]"
  by (simp add: rising_market_scores) (simp add: rising_market_def single_asset_config_def)

text \<open>
  Claim C1 says that no evaluator emits a signal with a confidence outside \<open>[0, 100]\<close>, and
  that the momentum evaluator's \<^verbatim>\<open>min(95, 60 + score)\<close> stays in that range. The momentum
  evaluator bounds the confidence of a new position from above only. On ten observations
  of a price rising from 100 to 109 (every price positive, every volume 1000) a fresh
  evaluator returns one BUY signal, at the positive price 100, whose confidence is below 0
  (about -5994.56: the trend-strength score is -3996700/33, weighted by 0.05).
\<close>

theorem momentum_confidence_below_zero:
  "map (\<lambda>s. (sig_action s, sig_symbol s, sig_price s, confidence s < 0))
     (fst (momentum_analyzeMarket single_asset_config 1700000000000 new_MomentumTradingBot
        rising_market))
   = [(BUY, ''BTC'', 100, True)]"
  apply (simp add: momentum_analyzeMarket_def Let_def new_MomentumTradingBot_def rising_market_top)
  apply (simp add: single_asset_config_def generateRebalancingSignals_def rebalance_sells_def
      rebalance_buys_def checkStopLossTriggers_def checkTakeProfitTriggers_def takeProfit_set_def
      List.map_filter_simps Let_def observation_def)
  done

lemma losing_position_state_eq:
  "positions losing_position_state
     = [(''BTC'', \<lparr> pos_symbol = ''BTC'', pos_quantity = 10, entryPrice = 100, currentPrice = 90,
                    pnl = - 100, pnlPercentage = - 10, pos_timestamp = 1700000001000 \<rparr>)]
   \<and> lastRebalance losing_position_state = 1700000000000"
  by (simp add: losing_position_state_def momentum_updatePosition_def momentum_analyzeMarket_def
      createBotInstance_config_def new_MomentumTradingBot_def Let_def)

text \<open>
  Claim C2 says that the momentum evaluator checks stop-loss on every call, also within 15
  minutes of the last rebalance. In the source the return of the rebalance gate comes
  before the stop-loss check. The evaluator below holds 10 BTC at a loss of 10 percent,
  the configured stop-loss is 5 percent, and a call one minute after the last rebalance
  returns no signal; the same call 15 minutes after it returns the stop-loss SELL.
\<close>

theorem momentum_stop_loss_skipped_within_interval:
  "map (\<lambda>(smb, position). (smb, \<bar>pnlPercentage position\<bar> \<ge> stopLoss createBotInstance_config))
     (positions losing_position_state) = [(''BTC'', True)]
   \<and> fst (momentum_analyzeMarket createBotInstance_config (1700000000000 + 60000)
        losing_position_state
        [\<lparr> symbol = ''BTC'', price = 90, volume = 1000, timestamp = 1700000060000,
           change24h = - 10, change1h = - 10, high24h = 100, low24h = 90 \<rparr>]) = []
   \<and> filter (\<lambda>s. confidence s = 100)
        (fst (momentum_analyzeMarket createBotInstance_config (1700000000000 + 900000)
          losing_position_state
          [\<lparr> symbol = ''BTC'', price = 90, volume = 1000, timestamp = 1700000900000,
             change24h = - 10, change1h = - 10, high24h = 100, low24h = 90 \<rparr>]))
      = [\<lparr> sig_action = SELL, sig_symbol = ''BTC'', confidence = 100, sig_price = 90,
           sig_quantity = 10, sig_timestamp = 1700000900000, sig_riskLevel = HIGH \<rparr>]"
proof (intro conjI)
  show "map (\<lambda>(smb, position). (smb, \<bar>pnlPercentage position\<bar> \<ge> stopLoss createBotInstance_config))
     (positions losing_position_state) = [(''BTC'', True)]"
    by (simp add: losing_position_state_eq createBotInstance_config_def)
  show "fst (momentum_analyzeMarket createBotInstance_config (1700000000000 + 60000)
        losing_position_state
        [\<lparr> symbol = ''BTC'', price = 90, volume = 1000, timestamp = 1700000060000,
           change24h = - 10, change1h = - 10, high24h = 100, low24h = 90 \<rparr>]) = []"
    by (simp add: momentum_analyzeMarket_def Let_def losing_position_state_eq)
  show "filter (\<lambda>s. confidence s = 100)
        (fst (momentum_analyzeMarket createBotInstance_config (1700000000000 + 900000)
          losing_position_state
          [\<lparr> symbol = ''BTC'', price = 90, volume = 1000, timestamp = 1700000900000,
             change24h = - 10, change1h = - 10, high24h = 100, low24h = 90 \<rparr>]))
      = [\<lparr> sig_action = SELL, sig_symbol = ''BTC'', confidence = 100, sig_price = 90,
           sig_quantity = 10, sig_timestamp = 1700000900000, sig_riskLevel = HIGH \<rparr>]"
    by (simp add: momentum_analyzeMarket_def Let_def losing_position_state_eq
        createBotInstance_config_def generateRebalancingSignals_def rebalance_sells_def
        rebalance_buys_def checkStopLossTriggers_def checkTakeProfitTriggers_def
        takeProfit_set_def List.map_filter_simps calculateMomentumScores_def)
qed

subsection \<open>Zero-volume observations\<close>

text \<open>
  Claim C6 says that every evaluator returns no signal on zero-volume observations, which
  is what the harness's "Zero Volume Test" expects. On the data and the configuration of
  that test, a fresh momentum evaluator and a fresh DCA evaluator each return a BUY
  signal: neither reads the volume before a first purchase.
\<close>

theorem zero_volume_signals:
  "fst (momentum_analyzeMarket createBotInstance_config 1700000000000
          new_MomentumTradingBot (generateZeroVolumeData 1700000000000))
     = [\<lparr> sig_action = BUY, sig_symbol = ''BTC'', confidence = 60, sig_price = 100,
          sig_quantity = 20, sig_timestamp = 1700000000000, sig_riskLevel = MEDIUM \<rparr>]
   \<and> fst (dca_analyzeMarket createBotInstance_config
            (createBotInstance_schedule 1700000000000) 1700000000000
            new_DCATradingBot (generateZeroVolumeData 1700000000000))
     = [\<lparr> sig_action = BUY, sig_symbol = ''BTC'', confidence = 70, sig_price = 100,
          sig_quantity = 1.2, sig_timestamp = 1700000000000, sig_riskLevel = LOW \<rparr>]"
proof (intro conjI)
  show "fst (momentum_analyzeMarket createBotInstance_config 1700000000000
          new_MomentumTradingBot (generateZeroVolumeData 1700000000000))
     = [\<lparr> sig_action = BUY, sig_symbol = ''BTC'', confidence = 60, sig_price = 100,
          sig_quantity = 20, sig_timestamp = 1700000000000, sig_riskLevel = MEDIUM \<rparr>]"
    by (simp add: momentum_analyzeMarket_def createBotInstance_config_def
        new_MomentumTradingBot_def generateZeroVolumeData_def momentum_record_def history_of_def
        calculateMomentumScores_def momentum_score_def generateRebalancingSignals_def
        rebalance_sells_def rebalance_buys_def checkStopLossTriggers_def
        checkTakeProfitTriggers_def takeProfit_set_def List.map_filter_simps Let_def)
  show "fst (dca_analyzeMarket createBotInstance_config
            (createBotInstance_schedule 1700000000000) 1700000000000
            new_DCATradingBot (generateZeroVolumeData 1700000000000))
     = [\<lparr> sig_action = BUY, sig_symbol = ''BTC'', confidence = 70, sig_price = 100,
          sig_quantity = 1.2, sig_timestamp = 1700000000000, sig_riskLevel = LOW \<rparr>]"
    by (simp add: dca_analyzeMarket_def createBotInstance_config_def new_DCATradingBot_def
        createBotInstance_schedule_def shouldMakePurchase_def generateDCASignal_def
        applyDynamicSizing_def dca_calculateVolatility_def calculateVolumeRatio_def
        calculateDCAConfidence_def dca_calculateRiskLevel_def generateZeroVolumeData_def
        dca_record_def history_of_def dca_symbol_signals_def Let_def)
qed

subsection \<open>Evaluation in doubles\<close>

lemma expo_unfold:
  "expo n a = (if n = 0 then 0 else if 2 \<le> a then expo (n - 1) (a / 2) + 1
      else if a < 1 then expo (n - 1) (2 * a) - 1 else 0)"
  by (cases n) simp_all

lemmas dbl_eval = rnd_def fl_def lit_def dadd_def dsub_def dmul_def ddiv_def dsum_def pow2_def
  round_even_def jsub_def jdiv_def expo_unfold Let_def

subsection \<open>Channel index of a flat series\<close>

lemma rnd_tenth: "rnd 0.1 = 3602879701896397 / 36028797018963968"
  by (simp add: dbl_eval)

lemma flat_history_eq:
  "history_of (foldl (updatePriceHistory default_CCIConfig) [] flat_market) ''BTC''
     = map (\<lambda>i. \<lparr> cd_symbol = ''BTC'', cd_timestamp = 1700000000000 + real i * 3600000,
                 cd_price = rnd 0.1, high = rnd 0.1, low = rnd 0.1, close = rnd 0.1,
                 cd_volume = 1000, cci = 0, cciMA = 0, cciSignal = NEUTRAL,
                 trend = SIDEWAYS, strength = 0 \<rparr>) [0..<20]"
  by (simp add: flat_market_def flat_observation_def updatePriceHistory_def history_of_def
      default_CCIConfig_def upt_conv_Cons Let_def)

lemma typical_tenth:
  "ddiv (dadd (dadd (Num (rnd 0.1)) (Num (rnd 0.1))) (Num (rnd 0.1))) (Num 3)
     = Num (7205759403792795 / 72057594037927936)"
  by (simp add: rnd_tenth) (simp add: dbl_eval)

lemma replicate_20: "replicate 20 x = [x, x, x, x, x, x, x, x, x, x, x, x, x, x, x, x, x, x, x, x]"
  by (simp add: eval_nat_numeral)

lemma flat_typical_prices:
  "map (\<lambda>d. ddiv (dadd (dadd (Num (high d)) (Num (low d))) (Num (close d))) (Num 3))
     (history_of (foldl (updatePriceHistory default_CCIConfig) [] flat_market) ''BTC'')
   = replicate 20 (Num (7205759403792795 / 72057594037927936))"
  by (simp add: flat_history_eq upt_conv_Cons typical_tenth replicate_20)

lemma flat_sma:
  "ddiv (dsum (replicate 20 (Num (7205759403792795 / 72057594037927936)))) (Num 20)
     = Num (7205759403792797 / 72057594037927936)"
  by (simp add: replicate_20 dbl_eval)

lemma flat_deviation:
  "ddiv (dsum (map (\<lambda>tp. jabs (dsub tp (Num (7205759403792797 / 72057594037927936))))
      (replicate 20 (Num (7205759403792795 / 72057594037927936))))) (Num 20)
     = Num (1 / 36028797018963968)"
  by (simp add: replicate_20 dbl_eval)

lemma flat_quotient:
  "ddiv (dsub (Num (7205759403792795 / 72057594037927936))
              (Num (7205759403792797 / 72057594037927936)))
        (dmul (lit 0.015) (Num (1 / 36028797018963968)))
     = Num (- (4691249611844267 / 70368744177664))"
  by (simp add: dbl_eval)

lemma flat_length:
  "length (history_of (foldl (updatePriceHistory default_CCIConfig) [] flat_market) ''BTC'') = 20"
  by (simp add: flat_history_eq)

text \<open>
  C8. Twenty observations at the constant price 0.1 (high = low = close), entered by
  \<^verbatim>\<open>updatePriceHistory\<close> into an empty history under the default configuration, whose
  period is 20. In doubles the typical price \<^verbatim>\<open>(0.1 + 0.1 + 0.1) / 3\<close> is
  0.10000000000000002 and the mean of the twenty equal typical prices is
  0.10000000000000005, so the mean deviation is \<^verbatim>\<open>2^-55\<close> and not 0: the guard does not
  apply, and \<^verbatim>\<open>computeCCI\<close> returns -66.66666666666667 instead of 0.
\<close>

theorem computeCCI_flat_tenth:
  "length (history_of (foldl (updatePriceHistory default_CCIConfig) [] flat_market) ''BTC'')
     = period default_CCIConfig
   \<and> computeCCI default_CCIConfig
         (history_of (foldl (updatePriceHistory default_CCIConfig) [] flat_market) ''BTC'')
       = Num (- (4691249611844267 / 70368744177664))"
proof -
  have p: "period default_CCIConfig = 20" by (simp add: default_CCIConfig_def)
  have s: "slice_last 20 (history_of (foldl (updatePriceHistory default_CCIConfig) [] flat_market)
      ''BTC'') = history_of (foldl (updatePriceHistory default_CCIConfig) [] flat_market) ''BTC''"
    by (simp add: slice_last_def flat_length)
  have l: "last (replicate 20 (Num (7205759403792795 / 72057594037927936)))
      = Num (7205759403792795 / 72057594037927936)"
    by simp
  have n: "replicate 20 (Num (7205759403792795 / 72057594037927936)) \<noteq> []" by simp
  have c: "computeCCI default_CCIConfig
      (history_of (foldl (updatePriceHistory default_CCIConfig) [] flat_market) ''BTC'')
    = Num (- (4691249611844267 / 70368744177664))"
    unfolding computeCCI_def Let_def p s flat_typical_prices
    by (simp only: flat_sma flat_deviation flat_quotient l n of_nat_numeral if_False)
       simp
  show ?thesis
    unfolding c p by (simp add: flat_length)
qed

subsection \<open>Staking allocation\<close>

lemma rnd_literals:
  "rnd (9 / 2) = 9 / 2"
  "rnd (19 / 20) = 4278419646001971 / 4503599627370496"
  "rnd (17 / 20) = 7656119366529843 / 9007199254740992"
  "rnd (9 / 10) = 8106479329266893 / 9007199254740992"
  "rnd (49 / 50) = 2206763817411543 / 2251799813685248"
  "rnd (23 / 25) = 8286623314361713 / 9007199254740992"
  "rnd (47 / 50) = 2116691824864133 / 2251799813685248"
  "rnd (1 / 10) = 3602879701896397 / 36028797018963968"
  by (simp_all add: dbl_eval)

lemma lit_literals:
  "lit (6 / 5) = Num (5404319552844595 / 4503599627370496)"
  "lit (11 / 10) = Num (2476979795053773 / 2251799813685248)"
  "lit (3 / 10) = Num (5404319552844595 / 18014398509481984)"
  by (simp_all add: dbl_eval)

lemmas staking_tables =
  getBaseAPY_def getPlatformMultiplier_def getRiskAdjustment_def getMinStake_def
  getMaxStake_def getLockPeriod_def getRiskLevel_def getLiquidity_def
  getCompoundFrequency_def getFees_def or_default_def lookup2_def

lemma eth_opportunities:
  "all_opportunities eth_staking_state
     = map (generateStakingOpportunity 1700000000000 (hd eth_market))
         [''Lido'', ''Rocket Pool'', ''Coinbase'', ''Kraken'']"
  by (simp add: all_opportunities_def eth_staking_state_def updateStakingOpportunities_def
      new_SmartStakingBot_def eth_market_def getStakingPlatforms_def)

lemma lido_apy:
  "dmul (dmul (Num (9 / 2)) (Num 1))
     (dmul (dmul (Num 1) (Num (4278419646001971 / 4503599627370496)))
        (Num (4278419646001971 / 4503599627370496)))
   = Num (4572560996664607 / 1125899906842624)"
  by (simp add: dbl_eval)

lemma rocket_pool_apy:
  "dmul (dmul (Num (9 / 2)) (Num (4278419646001971 / 4503599627370496)))
     (dmul (dmul (Num 1) (Num (2206763817411543 / 2251799813685248)))
        (Num (4278419646001971 / 4503599627370496)))
   = Num (8962219553462627 / 2251799813685248)"
  by (simp add: dbl_eval)

lemma coinbase_apy:
  "dmul (dmul (Num (9 / 2)) (Num (7656119366529843 / 9007199254740992)))
     (dmul (dmul (Num 1) (Num (8286623314361713 / 9007199254740992)))
        (Num (4278419646001971 / 4503599627370496)))
   = Num (1881969841785117 / 562949953421312)"
  by (simp add: dbl_eval)

lemma kraken_apy:
  "dmul (dmul (Num (9 / 2)) (Num (8106479329266893 / 9007199254740992)))
     (dmul (dmul (Num 1) (Num (2116691824864133 / 2251799813685248)))
        (Num (4278419646001971 / 4503599627370496)))
   = Num (8143971796164751 / 2251799813685248)"
  by (simp add: dbl_eval)

lemma lido_opportunity:
  "generateStakingOpportunity 1700000000000 (hd eth_market) ''Lido''
     = \<lparr> so_symbol = ''ETH'', platform = ''Lido'',
         apy = Num (4572560996664607 / 1125899906842624),
         minStake = 3602879701896397 / 36028797018963968, maxStake = Some 1000,
         lockPeriod = 0, so_riskLevel = LOW, liquidity = LIQUIDITY_HIGH,
         compoundFrequency = COMPOUND_DAILY, fees = 10, lastUpdated = 1700000000000 \<rparr>"
  by (simp add: generateStakingOpportunity_def eth_market_def staking_tables rnd_literals
      lido_apy jmin_def jmax_def Let_def)

lemma lido_score:
  "calculateStakingScore (generateStakingOpportunity 1700000000000 (hd eth_market) ''Lido'')
     eth_market = Num (4108103113428401 / 70368744177664)"
  unfolding lido_opportunity
  by (simp add: calculateStakingScore_def eth_market_def lit_literals Let_def)
     (simp add: dbl_eval jmax_def)

lemma rocket_pool_opportunity:
  "generateStakingOpportunity 1700000000000 (hd eth_market) ''Rocket Pool''
     = \<lparr> so_symbol = ''ETH'', platform = ''Rocket Pool'',
         apy = Num (8962219553462627 / 2251799813685248),
         minStake = 3602879701896397 / 36028797018963968, maxStake = Some 1000,
         lockPeriod = 0, so_riskLevel = LOW, liquidity = LIQUIDITY_HIGH,
         compoundFrequency = COMPOUND_DAILY, fees = 15, lastUpdated = 1700000000000 \<rparr>"
  by (simp add: generateStakingOpportunity_def eth_market_def staking_tables rnd_literals
      rocket_pool_apy jmin_def jmax_def Let_def)

lemma rocket_pool_score:
  "calculateStakingScore (generateStakingOpportunity 1700000000000 (hd eth_market) ''Rocket Pool'')
     eth_market = Num (7604555318857459 / 140737488355328)"
  unfolding rocket_pool_opportunity
  by (simp add: calculateStakingScore_def eth_market_def lit_literals Let_def)
     (simp add: dbl_eval jmax_def)

lemma coinbase_opportunity:
  "generateStakingOpportunity 1700000000000 (hd eth_market) ''Coinbase''
     = \<lparr> so_symbol = ''ETH'', platform = ''Coinbase'',
         apy = Num (1881969841785117 / 562949953421312),
         minStake = 3602879701896397 / 36028797018963968, maxStake = Some 10000,
         lockPeriod = 0, so_riskLevel = LOW, liquidity = LIQUIDITY_HIGH,
         compoundFrequency = COMPOUND_WEEKLY, fees = 25, lastUpdated = 1700000000000 \<rparr>"
  by (simp add: generateStakingOpportunity_def eth_market_def staking_tables rnd_literals
      coinbase_apy jmin_def jmax_def Let_def)

lemma coinbase_score:
  "calculateStakingScore (generateStakingOpportunity 1700000000000 (hd eth_market) ''Coinbase'')
     eth_market = Num (5123662894259981 / 140737488355328)"
  unfolding coinbase_opportunity
  by (simp add: calculateStakingScore_def eth_market_def lit_literals Let_def)
     (simp add: dbl_eval jmax_def)

lemma kraken_opportunity:
  "generateStakingOpportunity 1700000000000 (hd eth_market) ''Kraken''
     = \<lparr> so_symbol = ''ETH'', platform = ''Kraken'',
         apy = Num (8143971796164751 / 2251799813685248),
         minStake = 3602879701896397 / 36028797018963968, maxStake = Some 10000,
         lockPeriod = 0, so_riskLevel = LOW, liquidity = LIQUIDITY_HIGH,
         compoundFrequency = COMPOUND_WEEKLY, fees = 20, lastUpdated = 1700000000000 \<rparr>"
  by (simp add: generateStakingOpportunity_def eth_market_def staking_tables rnd_literals
      kraken_apy jmin_def jmax_def Let_def)

lemma kraken_score:
  "calculateStakingScore (generateStakingOpportunity 1700000000000 (hd eth_market) ''Kraken'')
     eth_market = Num (2956261762007805 / 70368744177664)"
  unfolding kraken_opportunity
  by (simp add: calculateStakingScore_def eth_market_def lit_literals Let_def)
     (simp add: dbl_eval jmax_def)

lemma capital_steps:
  "dmul (Num 7) (lit (3 / 10)) = Num (4728779608739021 / 2251799813685248)"
  "dsub (Num 7) (Num (4728779608739021 / 2251799813685248))
     = Num (2758454771764429 / 562949953421312)"
  "dsub (Num (2758454771764429 / 562949953421312)) (Num (4728779608739021 / 2251799813685248))
     = Num (6305039478318695 / 2251799813685248)"
  "dsub (Num (6305039478318695 / 2251799813685248)) (Num (4728779608739021 / 2251799813685248))
     = Num (788129934789837 / 1125899906842624)"
  "dsub (Num (788129934789837 / 1125899906842624)) (Num (788129934789837 / 1125899906842624))
     = Num 0"
  by (simp_all add: lit_literals) (simp_all add: dbl_eval)


lemma eth_sorted:
  "sort_key (\<lambda>(opp, scr). - num_of scr)
       [(o1 :: StakingOpportunity, Num (4108103113428401 / 70368744177664)),
        (o2, Num (7604555318857459 / 140737488355328)),
        (o3, Num (5123662894259981 / 140737488355328)),
        (o4, Num (2956261762007805 / 70368744177664))]
     = [(o1, Num (4108103113428401 / 70368744177664)),
        (o2, Num (7604555318857459 / 140737488355328)),
        (o4, Num (2956261762007805 / 70368744177664)),
        (o3, Num (5123662894259981 / 140737488355328))]"
  by simp

lemma eth_available:
    "dsub (Num (allocation small_staking_config))
       (dsum (map (\<lambda>(k, pos). Num (stakedAmount pos)) (staking_positions eth_staking_state)))
     = Num 7"
    by (simp add: small_staking_config_def eth_staking_state_def updateStakingOpportunities_def
        new_SmartStakingBot_def dsum_def)
       (simp add: dbl_eval)


lemma eth_scored:
    "map (\<lambda>opp. (opp, calculateStakingScore opp eth_market))
       (filter (\<lambda>opp. so_symbol opp \<in> set (enabledAssets small_staking_config))
          (all_opportunities eth_staking_state))
     = [(generateStakingOpportunity 1700000000000 (hd eth_market) ''Lido'',
           Num (4108103113428401 / 70368744177664)),
        (generateStakingOpportunity 1700000000000 (hd eth_market) ''Rocket Pool'',
           Num (7604555318857459 / 140737488355328)),
        (generateStakingOpportunity 1700000000000 (hd eth_market) ''Coinbase'',
           Num (5123662894259981 / 140737488355328)),
        (generateStakingOpportunity 1700000000000 (hd eth_market) ''Kraken'',
           Num (2956261762007805 / 70368744177664))]"
proof -
  have f: "filter (\<lambda>opp. so_symbol opp \<in> set (enabledAssets small_staking_config))
          (all_opportunities eth_staking_state) = all_opportunities eth_staking_state"
    unfolding eth_opportunities
    by (simp add: small_staking_config_def lido_opportunity rocket_pool_opportunity
        coinbase_opportunity kraken_opportunity)
  show ?thesis
    unfolding f unfolding eth_opportunities
    by (simp add: lido_score rocket_pool_score coinbase_score kraken_score)
qed


lemma allocate_last:
  "allocate 7 (Num (788129934789837 / 1125899906842624))
     [(generateStakingOpportunity 1700000000000 (hd eth_market) ''Coinbase'',
       Num (5123662894259981 / 140737488355328))]
   = [\<lparr> al_symbol = ''ETH'', al_platform = ''Coinbase'',
          amount = Num (788129934789837 / 1125899906842624),
          al_apy = Num (1881969841785117 / 562949953421312), priority = Num 36 \<rparr>]"
  unfolding coinbase_opportunity
  by (simp add: capital_steps maxStake_or_def jmin_def jleq_def Let_def)


lemma eth_allocations:
  "calculateOptimalAllocations small_staking_config eth_staking_state eth_market
     = [\<lparr> al_symbol = ''ETH'', al_platform = ''Lido'',
          amount = Num (4728779608739021 / 2251799813685248),
          al_apy = Num (4572560996664607 / 1125899906842624), priority = Num 58 \<rparr>,
        \<lparr> al_symbol = ''ETH'', al_platform = ''Rocket Pool'',
          amount = Num (4728779608739021 / 2251799813685248),
          al_apy = Num (8962219553462627 / 2251799813685248), priority = Num 54 \<rparr>,
        \<lparr> al_symbol = ''ETH'', al_platform = ''Kraken'',
          amount = Num (4728779608739021 / 2251799813685248),
          al_apy = Num (8143971796164751 / 2251799813685248), priority = Num 42 \<rparr>,
        \<lparr> al_symbol = ''ETH'', al_platform = ''Coinbase'',
          amount = Num (788129934789837 / 1125899906842624),
          al_apy = Num (1881969841785117 / 562949953421312), priority = Num 36 \<rparr>]"
proof -
  have total: "allocation small_staking_config = 7"
    by (simp add: small_staking_config_def)
  have greedy:
    "allocate 7 (Num 7)
       [(generateStakingOpportunity 1700000000000 (hd eth_market) ''Lido'',
           Num (4108103113428401 / 70368744177664)),
        (generateStakingOpportunity 1700000000000 (hd eth_market) ''Rocket Pool'',
           Num (7604555318857459 / 140737488355328)),
        (generateStakingOpportunity 1700000000000 (hd eth_market) ''Kraken'',
           Num (2956261762007805 / 70368744177664)),
        (generateStakingOpportunity 1700000000000 (hd eth_market) ''Coinbase'',
           Num (5123662894259981 / 140737488355328))]
     = \<lparr> al_symbol = ''ETH'', al_platform = ''Lido'',
          amount = Num (4728779608739021 / 2251799813685248),
          al_apy = Num (4572560996664607 / 1125899906842624), priority = Num 58 \<rparr>
       # \<lparr> al_symbol = ''ETH'', al_platform = ''Rocket Pool'',
          amount = Num (4728779608739021 / 2251799813685248),
          al_apy = Num (8962219553462627 / 2251799813685248), priority = Num 54 \<rparr>
       # \<lparr> al_symbol = ''ETH'', al_platform = ''Kraken'',
          amount = Num (4728779608739021 / 2251799813685248),
          al_apy = Num (8143971796164751 / 2251799813685248), priority = Num 42 \<rparr>
       # allocate 7 (Num (788129934789837 / 1125899906842624))
           [(generateStakingOpportunity 1700000000000 (hd eth_market) ''Coinbase'',
             Num (5123662894259981 / 140737488355328))]"
    unfolding lido_opportunity rocket_pool_opportunity kraken_opportunity
    by (simp add: capital_steps maxStake_or_def jmin_def jleq_def Let_def)
  show ?thesis
    unfolding calculateOptimalAllocations_def Let_def eth_available eth_scored
    unfolding eth_sorted total greedy allocate_last
    by (rule refl)
qed


lemma eth_amount_sums:
  "dadd (Num 0) (Num (4728779608739021 / 2251799813685248))
     = Num (4728779608739021 / 2251799813685248)"
  "dadd (Num (4728779608739021 / 2251799813685248)) (Num (4728779608739021 / 2251799813685248))
     = Num (4728779608739021 / 1125899906842624)"
  "dadd (Num (4728779608739021 / 1125899906842624)) (Num (4728779608739021 / 2251799813685248))
     = Num (1773292353277133 / 281474976710656)"
  "dadd (Num (1773292353277133 / 281474976710656)) (Num (788129934789837 / 1125899906842624))
     = Num (7881299347898369 / 1125899906842624)"
  by (simp_all add: dbl_eval)

text \<open>
  C4. A fresh staking evaluator with a capital of 7 for ETH, after
  \<^verbatim>\<open>updateStakingOpportunities\<close> on one observation of ETH: the greedy allocation returns
  the amounts 2.1, 2.1, 2.1 and 0.7000000000000002 (Lido, Rocket Pool, Kraken, Coinbase).
  Their sum is \<^verbatim>\<open>7 + 2^-51\<close>, and added up in doubles it is 7.000000000000001: more
  than the total capital. The first amount, the double of \<^verbatim>\<open>7 * 0.3\<close>, is also above 30% of 7.
\<close>

theorem staking_allocations_exceed_capital:
  "map amount (calculateOptimalAllocations small_staking_config eth_staking_state eth_market)
     = [Num (4728779608739021 / 2251799813685248), Num (4728779608739021 / 2251799813685248),
        Num (4728779608739021 / 2251799813685248), Num (788129934789837 / 1125899906842624)]
   \<and> map al_platform
         (calculateOptimalAllocations small_staking_config eth_staking_state eth_market)
     = [''Lido'', ''Rocket Pool'', ''Kraken'', ''Coinbase'']
   \<and> sum_list (map (\<lambda>a. num_of (amount a))
         (calculateOptimalAllocations small_staking_config eth_staking_state eth_market))
     = allocation small_staking_config + 1 / 2251799813685248
   \<and> dsum (map amount
         (calculateOptimalAllocations small_staking_config eth_staking_state eth_market))
     = Num (allocation small_staking_config + 1 / 1125899906842624)
   \<and> allocation small_staking_config = 7
   \<and> 3 / 10 * allocation small_staking_config < 4728779608739021 / 2251799813685248"
  unfolding eth_allocations
  by (simp add: dsum_def eth_amount_sums small_staking_config_def)

subsection \<open>Signal validation\<close>

lemma one_btc_value: "calculatePortfolioValue one_btc_held btc_at_3 = Num 3"
  by (simp add: calculatePortfolioValue_def one_btc_held_def btc_at_3_def) (simp add: dbl_eval)

lemma rnd_fifth: "rnd (1 / 5) = 3602879701896397 / 18014398509481984"
  by (simp add: dbl_eval)

lemma small_buy_percent:
  "positionSizePercent small_buy_signal one_btc_held btc_at_3
     = Num (5629499534213121 / 281474976710656)"
  by (simp add: positionSizePercent_def one_btc_value small_buy_signal_def rnd_fifth)
     (simp add: dbl_eval)

lemma small_buy_adjusted:
  "ddiv (dmul (ddiv (Num 20) (Num 100)) (Num 3)) (Num 3)
     = Num (7205759403792795 / 36028797018963968)"
  by (simp add: dbl_eval)

text \<open>
  C3. The portfolio holds 1 BTC at the price 3, the position-size limit is 20 percent, and
  the signal buys 0.2 BTC at 3 (quantity 0.2 \<ge> 0, price 3 > 0). In doubles
  \<^verbatim>\<open>0.2 * 3\<close> is 0.6000000000000001 and the position size 20.000000000000004 percent,
  above the limit, so the signal is resized: the result is approved with the adjusted
  quantity \<^verbatim>\<open>(20 / 100) * 3 / 3\<close> = 0.20000000000000004, which is more than the quantity
  0.2 of the signal.
\<close>

theorem validateSignal_increases_quantity:
  "approved (fst (validateSignal example_manager small_buy_signal one_btc_held btc_at_3))
   \<and> adjustedQuantity (fst (validateSignal example_manager small_buy_signal one_btc_held btc_at_3))
       = Some (Num (7205759403792795 / 36028797018963968))
   \<and> sig_quantity small_buy_signal = 7205759403792794 / 36028797018963968
   \<and> sig_quantity small_buy_signal < 7205759403792795 / 36028797018963968"
proof -
  have m: "maxPositionSize (riskLimits example_manager) = 20"
    by (simp add: example_manager_def example_limits_def)
  have p: "sig_price small_buy_signal = 3" by (simp add: small_buy_signal_def)
  have q: "sig_quantity small_buy_signal = 7205759403792794 / 36028797018963968"
    by (simp add: small_buy_signal_def rnd_fifth)
  have b: "jgt (positionSizePercent small_buy_signal one_btc_held btc_at_3) 20"
    by (simp add: small_buy_percent)
  have v: "fst (validateSignal example_manager small_buy_signal one_btc_held btc_at_3)
      = \<lparr> approved = True,
          adjustedQuantity = Some (Num (7205759403792795 / 36028797018963968)),
          reason = PositionSizeReduced, val_riskLevel = HIGH \<rparr>"
    by (simp add: validateSignal_def Let_def m p b calculateRiskMetrics_def one_btc_value
        small_buy_adjusted split: prod.splits)
  show ?thesis by (simp add: v q)
qed


subsection \<open>Conditional value at risk\<close>

lemma history_returns_length: "length (history_returns h) = length h - 1"
  by (simp add: history_returns_def steps_def)

text \<open>
  Claim C5 says that CVaR95 is a finite number for every performance history of at least
  10 points. \<^verbatim>\<open>calculateCVaR\<close> divides by the number of returns below the percentile
  index without a guard: for a history of 10 to 20 points that index is 0, the tail is
  empty and the result is \<^verbatim>\<open>0 / 0 * 100\<close>, which is NaN.
\<close>

theorem calculateCVaR_short_history:
  assumes "10 \<le> length (performanceHistory rm)" and "length (performanceHistory rm) \<le> 20"
  shows "calculateCVaR rm 0.95 = NaN"
proof -
  let ?n = "length (sort (history_returns (performanceHistory rm)))"
  have n: "?n = length (performanceHistory rm) - 1"
    by (simp add: history_returns_length)
  have "0 \<le> (1 - 0.95) * real ?n" by simp
  moreover have "(1 - 0.95) * real ?n < 1" using assms n by simp
  ultimately have "\<lfloor>(1 - 0.95) * real ?n\<rfloor> = 0" by (simp add: floor_eq_iff)
  then have t: "take (nat \<lfloor>(1 - 0.95) * real ?n\<rfloor>)
      (sort (history_returns (performanceHistory rm))) = []"
    by simp
  have "\<not> length (performanceHistory rm) < 10" using assms(1) by simp
  then show ?thesis
    unfolding calculateCVaR_def Let_def t by (simp add: jdiv_def)
qed

theorem calculateCVaR_short_history_witness:
  "10 \<le> length (performanceHistory ten_point_manager)
   \<and> length (performanceHistory ten_point_manager) \<le> 20
   \<and> calculateCVaR ten_point_manager 0.95 = NaN
   \<and> \<not> is_finite (calculateCVaR ten_point_manager 0.95)"
proof -
  have h: "10 \<le> length (performanceHistory ten_point_manager)"
      "length (performanceHistory ten_point_manager) \<le> 20"
    by (simp_all add: ten_point_manager_def)
  from calculateCVaR_short_history [OF h] h show ?thesis by simp
qed

subsection \<open>Risk limits\<close>

text \<open>
  Claim C10. \<^verbatim>\<open>updateRiskLimits\<close> with a partial limits object changes exactly the fields
  present in the argument: a field named in the update takes the new value, a field not
  named keeps its old value, as read back through \<^verbatim>\<open>getRiskLimits\<close>; the histories of the
  risk manager are untouched.
\<close>

theorem updateRiskLimits_frame:
  "maxPositionSize (getRiskLimits (updateRiskLimits rm u))
     = (case new_maxPositionSize u of None \<Rightarrow> maxPositionSize (getRiskLimits rm) | Some v \<Rightarrow> v)
   \<and> maxTotalExposure (getRiskLimits (updateRiskLimits rm u))
     = (case new_maxTotalExposure u of None \<Rightarrow> maxTotalExposure (getRiskLimits rm) | Some v \<Rightarrow> v)
   \<and> maxDrawdown (getRiskLimits (updateRiskLimits rm u))
     = (case new_maxDrawdown u of None \<Rightarrow> maxDrawdown (getRiskLimits rm) | Some v \<Rightarrow> v)
   \<and> maxCorrelation (getRiskLimits (updateRiskLimits rm u))
     = (case new_maxCorrelation u of None \<Rightarrow> maxCorrelation (getRiskLimits rm) | Some v \<Rightarrow> v)
   \<and> maxVolatility (getRiskLimits (updateRiskLimits rm u))
     = (case new_maxVolatility u of None \<Rightarrow> maxVolatility (getRiskLimits rm) | Some v \<Rightarrow> v)
   \<and> minLiquidity (getRiskLimits (updateRiskLimits rm u))
     = (case new_minLiquidity u of None \<Rightarrow> minLiquidity (getRiskLimits rm) | Some v \<Rightarrow> v)
   \<and> maxLeverage (getRiskLimits (updateRiskLimits rm u))
     = (case new_maxLeverage u of None \<Rightarrow> maxLeverage (getRiskLimits rm) | Some v \<Rightarrow> v)
   \<and> emergencyStopLoss (getRiskLimits (updateRiskLimits rm u))
     = (case new_emergencyStopLoss u of None \<Rightarrow> emergencyStopLoss (getRiskLimits rm) | Some v \<Rightarrow> v)
   \<and> marketHistory (updateRiskLimits rm u) = marketHistory rm
   \<and> performanceHistory (updateRiskLimits rm u) = performanceHistory rm"
  by (simp add: updateRiskLimits_def getRiskLimits_def spread_limits_def override_def
        split: option.splits)

subsection \<open>Backtest scoring\<close>

text \<open>
  Claim C9. The \<^verbatim>\<open>passed\<close> flag of an evaluation holds if and only if the score is at least
  60 and at most two issues were recorded; the reported score is capped at 100.
\<close>

theorem evaluateTestResult_passed_iff:
  "passed (evaluateTestResult alg name p r)
     = (60 \<le> score (evaluateTestResult alg name p r)
        \<and> length (issues (evaluateTestResult alg name p r)) \<le> 2)
   \<and> score (evaluateTestResult alg name p r) \<le> 100"
  by (simp add: evaluateTestResult_def split: prod.splits)

end
